theory Spec2Isabelle
  imports Complex_Main
begin

section \<open>Python values used by the two augmentation scripts\<close>

text \<open>
  The development embeds \<^verbatim>\<open>augment_coco_json_with_pdf_text_layer.py\<close> (Dialect A) and
  \<^verbatim>\<open>augment_labelme_json_with_pdf_text_layer.py\<close> (Dialect B).

  Conventions of the embedding:
  \<^item> a Python \<^verbatim>\<open>str\<close> is a \<open>string\<close>; a \<open>char\<close> stands for the code point of the same number,
    so the strings covered are those with code points below 256;
  \<^item> JSON numbers (coordinates, widths, heights) are exact rationals: the rounding of binary
    floating point is not modelled, the order of the operations is kept as written;
  \<^item> a JSON object is a record of the fields the scripts read; a field the scripts test for
    presence (\<^verbatim>\<open>in\<close>, \<^verbatim>\<open>.get\<close>) is optional, the other fields are present with the type of
    the schema;
  \<^item> an exception is a value \<open>Inl e\<close> of \<open>error + 'a\<close>, a normal return is \<open>Inr v\<close>;
  \<^item> \<^verbatim>\<open>print\<close> appends a message to a log, returned beside the result.
\<close>

datatype error =
    ValueError
  | IndexError
  | ZeroDivisionError
  | OSError
  | JSONDecodeError
  | TextQueryFailure

subsection \<open>Characters and strings\<close>

definition isdecimal :: "char \<Rightarrow> bool" where
  "isdecimal c = (c \<in> set ''0123456789'')"

text \<open>
  \<^verbatim>\<open>str.isdigit\<close> is true for the ten decimal digits and, below code point 256, also for the
  superscript digits U+00B2, U+00B3 and U+00B9, which are digits but not decimals.
\<close>

definition isdigit :: "char \<Rightarrow> bool" where
  "isdigit c = (isdecimal c \<or> c = CHR 0xB2 \<or> c = CHR 0xB3 \<or> c = CHR 0xB9)"

definition digit_value :: "char \<Rightarrow> int" where
  "digit_value c = int (of_char c) - 48"

definition decimal_value :: "string \<Rightarrow> int" where
  "decimal_value s = foldl (\<lambda>acc c. 10 * acc + digit_value c) 0 s"

text \<open>
  The interpreter's limit on the number of digits of a string that \<^verbatim>\<open>int\<close> converts
  (\<^verbatim>\<open>sys.get_int_max_str_digits()\<close>); the scripts leave it at its default.
\<close>

definition int_max_str_digits :: nat where
  "int_max_str_digits = 4300"

text \<open>
  \<^verbatim>\<open>int(s)\<close>, for the strings the scripts pass to it: strings of digit characters without sign,
  blank or underscore. It raises \<^verbatim>\<open>ValueError\<close> on the empty string, on a character that is not
  a decimal digit, and on a string of more digits than the limit (leading zeros count).
\<close>

definition int_of_str :: "string \<Rightarrow> error + int" where
  "int_of_str s =
     (if s \<noteq> [] \<and> list_all isdecimal s \<and> length s \<le> int_max_str_digits
      then Inr (decimal_value s) else Inl ValueError)"

text \<open>\<^verbatim>\<open>str.lower\<close> on code points below 256.\<close>

definition lower_char :: "char \<Rightarrow> char" where
  "lower_char c =
     (let n = (of_char c :: nat)
      in if (65 \<le> n \<and> n \<le> 90) \<or> (192 \<le> n \<and> n \<le> 222 \<and> n \<noteq> 215)
         then char_of (n + 32) else c)"

definition lower :: "string \<Rightarrow> string" where
  "lower s = map lower_char s"

definition endswith :: "string \<Rightarrow> string \<Rightarrow> bool" where
  "endswith s suffix = (length suffix \<le> length s \<and> drop (length s - length suffix) s = suffix)"

definition isspace :: "char \<Rightarrow> bool" where
  "isspace c = ((of_char c :: nat) \<in> {9, 10, 11, 12, 13, 28, 29, 30, 31, 32, 133, 160})"

definition strip :: "string \<Rightarrow> string" where
  "strip s = rev (dropWhile isspace (rev (dropWhile isspace s)))"

subsection \<open>\<^verbatim>\<open>os.path\<close> (POSIX flavour)\<close>

definition rfind :: "char \<Rightarrow> string \<Rightarrow> int" where
  "rfind c p =
     (if c \<in> set p then int (length p) - 1 - int (length (takeWhile (\<lambda>d. d \<noteq> c) (rev p)))
      else - 1)"

definition basename :: "string \<Rightarrow> string" where
  "basename p = drop (nat (rfind CHR ''/'' p + 1)) p"

text \<open>
  \<^verbatim>\<open>os.path.splitext\<close>: the extension starts at the last dot, provided that dot lies after the
  last separator and some character between the separator and the dot is not a dot.
\<close>

definition splitext :: "string \<Rightarrow> string \<times> string" where
  "splitext p =
     (let sepIndex = rfind CHR ''/'' p;
          dotIndex = rfind CHR ''.'' p
      in if dotIndex > sepIndex \<and>
            \<not> list_all (\<lambda>c. c = CHR ''.'')
                (take (nat (dotIndex - (sepIndex + 1))) (drop (nat (sepIndex + 1)) p))
         then (take (nat dotIndex) p, drop (nat dotIndex) p)
         else (p, []))"

definition path_join :: "string \<Rightarrow> string \<Rightarrow> string" where
  "path_join a b =
     (if take 1 b = ''/'' then b
      else if a = [] \<or> endswith a ''/'' then a @ b
      else a @ ''/'' @ b)"

section \<open>Dialect A: the COCO group\<close>

record image =
  img_id :: int
  file_name :: string

record annotation =
  ann_id :: int
  ann_image_id :: int
  bbox :: "rat list"
  original_pdf_text_layer :: "string option"

text \<open>
  A key that \<^verbatim>\<open>coco_data.get(key, [])\<close> may find missing is an optional field.
\<close>

record coco_data =
  images :: "image list option"
  annotations :: "annotation list option"

subsection \<open>\<^verbatim>\<open>get_page_number_from_image_id\<close>\<close>

fun page_number_in :: "image list \<Rightarrow> int \<Rightarrow> error + int" where
  "page_number_in [] image_id = Inr (image_id - 1)"
| "page_number_in (img # rest) image_id =
     (if img_id img = image_id then
        (let filename = file_name img;
             base = fst (splitext (basename filename));
             numbers = filter isdigit base
         in if numbers \<noteq> [] then
              (case int_of_str numbers of
                 Inl e \<Rightarrow> Inl e
               | Inr n \<Rightarrow> Inr (n - 1))
            else Inr (image_id - 1))
      else page_number_in rest image_id)"

definition get_page_number_from_image_id :: "coco_data \<Rightarrow> int \<Rightarrow> error + int" where
  "get_page_number_from_image_id coco_data image_id =
     page_number_in (case images coco_data of None \<Rightarrow> [] | Some ims \<Rightarrow> ims) image_id"

section \<open>The document\<close>

text \<open>
  The PDF library (PyMuPDF) is not part of the repository. The scripts use three things of an
  opened document: \<^verbatim>\<open>pdf_doc.page_count\<close>, the page lookup \<^verbatim>\<open>pdf_doc[page_num]\<close> and, of a
  page, its size \<^verbatim>\<open>page.rect.width\<close>, \<^verbatim>\<open>page.rect.height\<close> and the clipped text query
  \<^verbatim>\<open>page.get_text("text", clip=rect)\<close>. They are the fields of the records below; a lookup or
  a query may raise. The functions of the scripts are embedded over an arbitrary such document.
\<close>

record rect =
  x0 :: rat
  y0 :: rat
  x1 :: rat
  y1 :: rat

record page =
  page_width :: rat
  page_height :: rat
  get_text :: "rect \<Rightarrow> error + string"

record pdf_doc =
  page_count :: int
  getitem :: "int \<Rightarrow> error + page"

text \<open>
  The documented behaviour of PyMuPDF's page lookup, used for concrete documents: a page
  number below \<^verbatim>\<open>page_count\<close> is accepted, and a negative one counts from the end of the
  document (\<^verbatim>\<open>page_count\<close> is added until the number is non-negative, so \<^verbatim>\<open>doc[-1]\<close> is the
  last page); a number that is not below \<^verbatim>\<open>page_count\<close> raises \<^verbatim>\<open>IndexError\<close>. For a document
  without pages no lookup yields a page: a number from 0 on raises, and for a negative number
  the library's lookup does not return, which is rendered as an error here. The concrete
  documents below all have pages.
\<close>

definition fitz_document :: "page list \<Rightarrow> pdf_doc" where
  "fitz_document ps =
     \<lparr>page_count = int (length ps),
      getitem = (\<lambda>i. if ps \<noteq> [] \<and> i < int (length ps)
                      then Inr (ps ! nat (i mod int (length ps)))
                      else Inl IndexError)\<rparr>"

subsection \<open>\<^verbatim>\<open>extract_text_from_bbox\<close> (Dialect A)\<close>

definition extract_text_from_bbox :: "pdf_doc \<Rightarrow> int \<Rightarrow> rat list \<Rightarrow> error + string" where
  "extract_text_from_bbox pdf_doc page_num bbox_coco =
     (if page_num \<ge> page_count pdf_doc then Inr []
      else
        (case getitem pdf_doc page_num of
           Inl e \<Rightarrow> Inl e
         | Inr page \<Rightarrow>
             (case bbox_coco of
                [x, y, width, height] \<Rightarrow>
                  (case get_text page \<lparr>x0 = x, y0 = y, x1 = x + width, y1 = y + height\<rparr> of
                     Inl e \<Rightarrow> Inl e
                   | Inr text \<Rightarrow> Inr (strip text))
              | _ \<Rightarrow> Inl ValueError)))"

subsection \<open>The annotation loop of \<^verbatim>\<open>process_pdf_layout_pair\<close> (Dialect A)\<close>

datatype coco_msg =
    Msg_processing_pdf string
  | Warn_layout_folder_not_found string
  | Warn_no_json_file string
  | Msg_found_coco_json string
  | Err_load_json error
  | Msg_opened_pdf int
  | Err_open_pdf error
  | Msg_processing_annotations nat
  | Msg_processed nat nat
  | Msg_extracted int nat
  | Warn_extract_failed int error
  | Msg_success nat string
  | Err_save error

text \<open>
  One pass of the loop body over the annotation at index \<open>i\<close> of \<open>n\<close>: the annotation as it is
  left, what the pass adds to \<^verbatim>\<open>updated_count\<close>, and what it prints. The page resolver is
  called outside the \<^verbatim>\<open>try\<close>, so its exception leaves the loop.
\<close>

definition process_annotation ::
  "pdf_doc \<Rightarrow> coco_data \<Rightarrow> nat \<Rightarrow> nat \<Rightarrow> annotation \<Rightarrow> error + (annotation \<times> nat \<times> coco_msg list)"
where
  "process_annotation pdf_doc coco_data n i ann =
     (let progress = (if i mod 50 = 0 \<and> i > 0 then [Msg_processed i n] else [])
      in case get_page_number_from_image_id coco_data (ann_image_id ann) of
           Inl e \<Rightarrow> Inl e
         | Inr page_num \<Rightarrow>
             (case extract_text_from_bbox pdf_doc page_num (bbox ann) of
                Inr extracted_text \<Rightarrow>
                  Inr (ann\<lparr>original_pdf_text_layer := Some extracted_text\<rparr>, 1,
                       progress @
                       (if extracted_text \<noteq> [] \<and> length extracted_text > 50
                        then [Msg_extracted (ann_id ann) (length extracted_text)] else []))
              | Inl e \<Rightarrow>
                  Inr (ann\<lparr>original_pdf_text_layer := Some []\<rparr>, 0,
                       progress @ [Warn_extract_failed (ann_id ann) e])))"

fun annotations_loop ::
  "pdf_doc \<Rightarrow> coco_data \<Rightarrow> nat \<Rightarrow> nat \<Rightarrow> annotation list
     \<Rightarrow> error + (annotation list \<times> nat \<times> coco_msg list)"
where
  "annotations_loop pdf_doc coco_data n i [] = Inr ([], 0, [])"
| "annotations_loop pdf_doc coco_data n i (ann # rest) =
     (case process_annotation pdf_doc coco_data n i ann of
        Inl e \<Rightarrow> Inl e
      | Inr (ann', k, msgs) \<Rightarrow>
          (case annotations_loop pdf_doc coco_data n (Suc i) rest of
             Inl e \<Rightarrow> Inl e
           | Inr (rest', k', msgs') \<Rightarrow> Inr (ann' # rest', k + k', msgs @ msgs')))"

text \<open>
  Lines 107 to 134: the group after the loop, \<^verbatim>\<open>updated_count\<close> and the messages. A group
  without an \<^verbatim>\<open>annotations\<close> key is left as it is.
\<close>

definition process_annotations ::
  "pdf_doc \<Rightarrow> coco_data \<Rightarrow> error + (coco_data \<times> nat \<times> coco_msg list)"
where
  "process_annotations pdf_doc coco_data =
     (case annotations coco_data of
        None \<Rightarrow> Inr (coco_data, 0, [Msg_processing_annotations 0])
      | Some anns \<Rightarrow>
          (case annotations_loop pdf_doc coco_data (length anns) 0 anns of
             Inl e \<Rightarrow> Inl e
           | Inr (anns', updated_count, msgs) \<Rightarrow>
               Inr (coco_data\<lparr>annotations := Some anns'\<rparr>, updated_count,
                    Msg_processing_annotations (length anns) # msgs)))"

text \<open>
  \<^verbatim>\<open>process_pdf_layout_pair\<close> of the COCO script. What the file system answers is given as
  arguments: whether the layout folder exists, the path \<^verbatim>\<open>find_coco_json\<close> found, the result
  of loading it, the result of opening the PDF, and the error of the final write if it fails.
  The result is the returned flag, the group written back (if any) and the messages.
\<close>

definition coco_process_pdf_layout_pair ::
  "string \<Rightarrow> string \<Rightarrow> bool \<Rightarrow> string option \<Rightarrow> error + coco_data \<Rightarrow> error + pdf_doc
     \<Rightarrow> error option \<Rightarrow> error + (bool \<times> coco_data option \<times> coco_msg list)"
where
  "coco_process_pdf_layout_pair pdf_path layout_folder folder_exists coco_json_path loaded
       opened save_error =
     (let pdf_name = fst (splitext (basename pdf_path));
          msgs0 = [Msg_processing_pdf pdf_name]
      in if \<not> folder_exists then
           Inr (False, None, msgs0 @ [Warn_layout_folder_not_found layout_folder])
         else
           (case coco_json_path of
              None \<Rightarrow> Inr (False, None, msgs0 @ [Warn_no_json_file layout_folder])
            | Some path \<Rightarrow>
                (case loaded of
                   Inl e \<Rightarrow> Inr (False, None, msgs0 @ [Msg_found_coco_json path, Err_load_json e])
                 | Inr coco_data \<Rightarrow>
                     (case opened of
                        Inl e \<Rightarrow>
                          Inr (False, None,
                               msgs0 @ [Msg_found_coco_json path, Err_open_pdf e])
                      | Inr pdf_doc \<Rightarrow>
                          (case process_annotations pdf_doc coco_data of
                             Inl e \<Rightarrow> Inl e
                           | Inr (coco_data', updated_count, msgs) \<Rightarrow>
                               (case save_error of
                                  Some e \<Rightarrow>
                                    Inr (False, None,
                                         msgs0 @ [Msg_found_coco_json path,
                                                  Msg_opened_pdf (page_count pdf_doc)]
                                           @ msgs @ [Err_save e])
                                | None \<Rightarrow>
                                    Inr (True, Some coco_data',
                                         msgs0 @ [Msg_found_coco_json path,
                                                  Msg_opened_pdf (page_count pdf_doc)]
                                           @ msgs @ [Msg_success updated_count path])))))))"

section \<open>Dialect B: the LabelMe per-page files\<close>

record shape =
  label :: "string option"
  points :: "rat list list option"
  shape_original_pdf_text_layer :: "string option"

record labelme_data =
  shapes :: "shape list option"
  imageWidth :: "rat option"
  imageHeight :: "rat option"

subsection \<open>\<^verbatim>\<open>extract_text_from_labelme_bbox\<close>\<close>

definition extract_text_from_labelme_bbox ::
  "pdf_doc \<Rightarrow> int \<Rightarrow> rat list list \<Rightarrow> rat \<Rightarrow> rat \<Rightarrow> error + string"
where
  "extract_text_from_labelme_bbox pdf_doc page_num labelme_points image_width image_height =
     (if page_num \<ge> page_count pdf_doc then Inr []
      else
        (case getitem pdf_doc page_num of
           Inl e \<Rightarrow> Inl e
         | Inr page \<Rightarrow>
             (case labelme_points of
                point1 # point2 # _ \<Rightarrow>
                  (case (point1, point2) of
                     (p1x # p1y # _, p2x # p2y # _) \<Rightarrow>
                       (let img_x0 = min p1x p2x; img_y0 = min p1y p2y;
                            img_x1 = max p1x p2x; img_y1 = max p1y p2y
                        in if image_width = 0 then Inl ZeroDivisionError
                           else if image_height = 0 then Inl ZeroDivisionError
                           else
                             (let scale_x = page_width page / image_width;
                                  scale_y = page_height page / image_height;
                                  pdf_x0 = img_x0 * scale_x;
                                  pdf_y0 = img_y0 * scale_y;
                                  pdf_x1 = img_x1 * scale_x;
                                  pdf_y1 = img_y1 * scale_y
                              in case get_text page
                                        \<lparr>x0 = pdf_x0, y0 = pdf_y0, x1 = pdf_x1, y1 = pdf_y1\<rparr> of
                                   Inl e \<Rightarrow> Inl e
                                 | Inr text \<Rightarrow> Inr (strip text)))
                   | _ \<Rightarrow> Inl IndexError)
              | _ \<Rightarrow> Inl IndexError)))"

subsection \<open>\<^verbatim>\<open>get_page_json_files\<close>\<close>

text \<open>
  \<^verbatim>\<open>re.match(r'page_(\d+)\.json', filename, re.IGNORECASE)\<close>: the match is anchored at the
  start of the name only. The result is the text of group 1. The digits are matched greedily
  and the next character has to be the dot, so group 1 is the whole run of decimal digits
  after the prefix.
\<close>

definition match_page_json :: "string \<Rightarrow> string option" where
  "match_page_json filename =
     (if lower (take 5 filename) = ''page_'' then
        (let rest = drop 5 filename;
             digits = takeWhile isdecimal rest;
             after = drop (length digits) rest
         in if digits \<noteq> [] \<and> lower (take 5 after) = ''.json'' then Some digits else None)
      else None)"

text \<open>
  The directory is given as the answer of the file system: \<open>None\<close> when \<^verbatim>\<open>images_dir\<close> does not
  exist, otherwise the names \<^verbatim>\<open>os.listdir\<close> returns, in its order.
\<close>

fun collect_page_json :: "string \<Rightarrow> string list \<Rightarrow> error + (int \<times> string) list" where
  "collect_page_json images_dir [] = Inr []"
| "collect_page_json images_dir (filename # rest) =
     (if endswith (lower filename) ''.json'' then
        (case match_page_json filename of
           Some group1 \<Rightarrow>
             (case int_of_str group1 of
                Inl e \<Rightarrow> Inl e
              | Inr page_num \<Rightarrow>
                  (case collect_page_json images_dir rest of
                     Inl e \<Rightarrow> Inl e
                   | Inr json_files \<Rightarrow>
                       Inr ((page_num, path_join images_dir filename) # json_files)))
         | None \<Rightarrow> collect_page_json images_dir rest)
      else collect_page_json images_dir rest)"

definition get_page_json_files ::
  "string \<Rightarrow> string list option \<Rightarrow> error + (int \<times> string) list"
where
  "get_page_json_files images_dir listing =
     (case listing of
        None \<Rightarrow> Inr []
      | Some filenames \<Rightarrow>
          (case collect_page_json images_dir filenames of
             Inl e \<Rightarrow> Inl e
           | Inr json_files \<Rightarrow> Inr (sort_key fst json_files)))"

subsection \<open>\<^verbatim>\<open>process_labelme_json\<close>\<close>

datatype labelme_msg =
    L_warn_not_labelme string
  | L_warn_no_image_dimensions string
  | L_shape_extracted string nat
  | L_shape_preview string string string
  | L_warn_shape_failed error
  | L_warn_shape_missing_points
  | L_updated_shapes nat string
  | L_err_invalid_json string
  | L_err_failed_to_process string error
  | L_processing_pdf string
  | L_warn_layout_folder_not_found string
  | L_warn_images_subfolder_not_found string
  | L_found_images_dir string
  | L_warn_no_page_files string
  | L_found_page_files "int list"
  | L_opened_pdf int
  | L_err_open_pdf error
  | L_warn_page_count_mismatch int nat
  | L_processing_page int int
  | L_warn_page_beyond_pdf int int
  | L_success int nat

text \<open>\<^verbatim>\<open>shape.get('label', 'unknown')\<close>.\<close>

definition label_or_unknown :: "shape \<Rightarrow> string" where
  "label_or_unknown shape = (case label shape of None \<Rightarrow> ''unknown'' | Some l \<Rightarrow> l)"

text \<open>
  One pass of the loop over the shapes: the shape as it is left, what the pass adds to
  \<^verbatim>\<open>shapes_processed\<close>, and what it prints.
\<close>

definition process_shape ::
  "pdf_doc \<Rightarrow> int \<Rightarrow> rat \<Rightarrow> rat \<Rightarrow> bool \<Rightarrow> shape \<Rightarrow> shape \<times> nat \<times> labelme_msg list"
where
  "process_shape pdf_doc page_num image_width image_height verbose shape =
     (if points shape \<noteq> None \<and> length (the (points shape)) \<ge> 2 then
        (case extract_text_from_labelme_bbox pdf_doc page_num (the (points shape))
                image_width image_height of
           Inr extracted_text \<Rightarrow>
             (shape\<lparr>shape_original_pdf_text_layer := Some extracted_text\<rparr>, 1,
              if verbose \<and> extracted_text \<noteq> [] \<and> length extracted_text > 30 then
                [L_shape_extracted (label_or_unknown shape) (length extracted_text)]
              else if verbose \<and> extracted_text \<noteq> [] then
                [L_shape_preview (label_or_unknown shape)
                   (take 50 (map (\<lambda>c. if c = CHR 0x0A then CHR '' '' else c) extracted_text))
                   (if length extracted_text > 50 then ''...'' else [])]
              else [])
         | Inl e \<Rightarrow>
             (shape\<lparr>shape_original_pdf_text_layer := Some []\<rparr>, 0,
              if verbose then [L_warn_shape_failed e] else []))
      else
        (shape\<lparr>shape_original_pdf_text_layer := Some []\<rparr>, 0,
         if verbose then [L_warn_shape_missing_points] else []))"

fun shapes_loop ::
  "pdf_doc \<Rightarrow> int \<Rightarrow> rat \<Rightarrow> rat \<Rightarrow> bool \<Rightarrow> shape list \<Rightarrow> shape list \<times> nat \<times> labelme_msg list"
where
  "shapes_loop pdf_doc page_num image_width image_height verbose [] = ([], 0, [])"
| "shapes_loop pdf_doc page_num image_width image_height verbose (shape # rest) =
     (case process_shape pdf_doc page_num image_width image_height verbose shape of
        (shape', k, msgs) \<Rightarrow>
          (case shapes_loop pdf_doc page_num image_width image_height verbose rest of
             (rest', k', msgs') \<Rightarrow> (shape' # rest', k + k', msgs @ msgs')))"

text \<open>
  The files of the images directory: a path holds an object of the LabelMe schema, or text
  that \<^verbatim>\<open>json.load\<close> rejects; a path without a file cannot be opened. The final write is taken
  to succeed.
\<close>

datatype file_content = Invalid_json | Json labelme_data

type_synonym files = "string \<rightharpoonup> file_content"

definition process_labelme_json ::
  "files \<Rightarrow> string \<Rightarrow> pdf_doc \<Rightarrow> int \<Rightarrow> bool \<Rightarrow> int \<times> files \<times> labelme_msg list"
where
  "process_labelme_json files json_path pdf_doc page_num verbose =
     (case files json_path of
        None \<Rightarrow>
          (- 1, files, if verbose then [L_err_failed_to_process json_path OSError] else [])
      | Some Invalid_json \<Rightarrow>
          (- 1, files, if verbose then [L_err_invalid_json json_path] else [])
      | Some (Json data) \<Rightarrow>
          (case shapes data of
             None \<Rightarrow>
               (0, files, if verbose then [L_warn_not_labelme (basename json_path)] else [])
           | Some shape_list \<Rightarrow>
               (let image_width = (case imageWidth data of None \<Rightarrow> 0 | Some w \<Rightarrow> w);
                    image_height = (case imageHeight data of None \<Rightarrow> 0 | Some h \<Rightarrow> h)
                in if image_width = 0 \<or> image_height = 0 then
                     (0, files,
                      if verbose then [L_warn_no_image_dimensions (basename json_path)] else [])
                   else
                     (case shapes_loop pdf_doc page_num image_width image_height verbose
                             shape_list of
                        (shape_list', shapes_processed, msgs) \<Rightarrow>
                          (int shapes_processed,
                           files(json_path \<mapsto> Json (data\<lparr>shapes := Some shape_list'\<rparr>)),
                           msgs @
                           (if verbose \<and> shapes_processed > 0
                            then [L_updated_shapes shapes_processed (basename json_path)]
                            else []))))))"

subsection \<open>\<^verbatim>\<open>process_pdf_layout_pair\<close> (Dialect B)\<close>

fun pages_loop ::
  "pdf_doc \<Rightarrow> bool \<Rightarrow> (int \<times> string) list \<Rightarrow> files \<Rightarrow> files \<times> int \<times> labelme_msg list"
where
  "pages_loop pdf_doc verbose [] files = (files, 0, [])"
| "pages_loop pdf_doc verbose ((page_num_1based, json_path) # rest) files =
     (let page_num_0based = page_num_1based - 1;
          msgs1 = (if verbose then [L_processing_page page_num_1based (page_num_0based + 1)]
                   else [])
      in if page_num_0based \<ge> page_count pdf_doc then
           (case pages_loop pdf_doc verbose rest files of
              (files', total_shapes, msgs) \<Rightarrow>
                (files', total_shapes,
                 msgs1 @
                 (if verbose then [L_warn_page_beyond_pdf page_num_1based (page_count pdf_doc)]
                  else []) @ msgs))
         else
           (case process_labelme_json files json_path pdf_doc page_num_0based verbose of
              (shapes_processed, files1, msgs2) \<Rightarrow>
                (case pages_loop pdf_doc verbose rest files1 of
                   (files', total_shapes, msgs) \<Rightarrow>
                     (files',
                      (if shapes_processed > 0 then shapes_processed else 0) + total_shapes,
                      msgs1 @ msgs2 @ msgs))))"

text \<open>
  \<^verbatim>\<open>process_pdf_layout_pair\<close> of the LabelMe script. The arguments give what the file system
  answers: whether the layout folder exists, the listing of its \<^verbatim>\<open>images\<close> subfolder (\<open>None\<close>
  when there is none), the result of opening the PDF and the files. The result is the
  returned flag, the files as they are left and the messages.
\<close>

definition labelme_process_pdf_layout_pair ::
  "string \<Rightarrow> string \<Rightarrow> bool \<Rightarrow> string list option \<Rightarrow> error + pdf_doc \<Rightarrow> files \<Rightarrow> bool
     \<Rightarrow> error + (bool \<times> files \<times> labelme_msg list)"
where
  "labelme_process_pdf_layout_pair pdf_path layout_folder folder_exists listing opened files
       verbose =
     (let pdf_name = fst (splitext (basename pdf_path));
          msgs0 = (if verbose then [L_processing_pdf pdf_name] else []);
          images_dir = path_join layout_folder ''images''
      in if \<not> folder_exists then
           Inr (False, files,
                msgs0 @ (if verbose then [L_warn_layout_folder_not_found layout_folder] else []))
         else if listing = None then
           Inr (False, files,
                msgs0 @ (if verbose then [L_warn_images_subfolder_not_found images_dir] else []))
         else
           (case get_page_json_files images_dir listing of
              Inl e \<Rightarrow> Inl e
            | Inr page_json_files \<Rightarrow>
                (let msgs1 = msgs0 @ (if verbose then [L_found_images_dir images_dir] else [])
                 in if page_json_files = [] then
                      Inr (False, files,
                           msgs1 @ (if verbose then [L_warn_no_page_files images_dir] else []))
                    else
                      (let msgs2 = msgs1 @
                             (if verbose then [L_found_page_files (map fst page_json_files)]
                              else [])
                       in case opened of
                            Inl e \<Rightarrow>
                              Inr (False, files,
                                   msgs2 @ (if verbose then [L_err_open_pdf e] else []))
                          | Inr pdf_doc \<Rightarrow>
                              (let pdf_page_count = page_count pdf_doc;
                                   msgs3 = msgs2 @
                                     (if verbose then [L_opened_pdf pdf_page_count] else []) @
                                     (if int (length page_json_files) \<noteq> pdf_page_count then
                                        (if verbose
                                         then [L_warn_page_count_mismatch pdf_page_count
                                                 (length page_json_files)]
                                         else [])
                                      else [])
                               in case pages_loop pdf_doc verbose page_json_files files of
                                    (files', total_shapes_processed, msgs) \<Rightarrow>
                                      Inr (True, files',
                                           msgs3 @ msgs @
                                           (if verbose
                                            then [L_success total_shapes_processed
                                                    (length page_json_files)]
                                            else [])))))))"

section \<open>Reference notions and sample pages\<close>



text \<open>
  The file names the specification of the Dialect B resolver describes: \<^verbatim>\<open>page_<N>\<close> with a
  JSON extension, in any letter case, \<open>N\<close> a non-empty string of decimal digits.
\<close>

definition spec_page_file_name :: "string \<Rightarrow> bool" where
  "spec_page_file_name filename =
     (let digits = takeWhile isdecimal (drop 5 filename)
      in digits \<noteq> [] \<and> lower filename = ''page_'' @ digits @ ''.json'')"

text \<open>
  Pages for concrete documents: one that answers a query with the text \<open>t\<close> whatever the
  clip, one that answers with \<open>t\<close> at the clip \<open>r\<close> and with no text at any other clip, and one
  whose text query fails.
\<close>

definition constant_page :: "rat \<Rightarrow> rat \<Rightarrow> string \<Rightarrow> page" where
  "constant_page w h t = \<lparr>page_width = w, page_height = h, get_text = (\<lambda>clip. Inr t)\<rparr>"

definition probe_page :: "rat \<Rightarrow> rat \<Rightarrow> rect \<Rightarrow> string \<Rightarrow> page" where
  "probe_page w h r t =
     \<lparr>page_width = w, page_height = h, get_text = (\<lambda>clip. if clip = r then Inr t else Inr [])\<rparr>"

definition failing_page :: "rat \<Rightarrow> rat \<Rightarrow> page" where
  "failing_page w h =
     \<lparr>page_width = w, page_height = h, get_text = (\<lambda>clip. Inl TextQueryFailure)\<rparr>"

text \<open>
  The text a region ends with: the text the extractor returns, or the empty string when the
  extractor raises or (Dialect B) the shape has fewer than two points.
\<close>

definition annotation_result :: "pdf_doc \<Rightarrow> int \<Rightarrow> annotation \<Rightarrow> string" where
  "annotation_result pdf_doc page_num ann =
     (case extract_text_from_bbox pdf_doc page_num (bbox ann) of
        Inl e \<Rightarrow> []
      | Inr extracted_text \<Rightarrow> extracted_text)"

definition shape_result :: "pdf_doc \<Rightarrow> int \<Rightarrow> rat \<Rightarrow> rat \<Rightarrow> shape \<Rightarrow> string" where
  "shape_result pdf_doc page_num image_width image_height shape =
     (if points shape \<noteq> None \<and> length (the (points shape)) \<ge> 2 then
        (case extract_text_from_labelme_bbox pdf_doc page_num (the (points shape))
                image_width image_height of
           Inl e \<Rightarrow> []
         | Inr extracted_text \<Rightarrow> extracted_text)
      else [])"

text \<open>
  What \<^verbatim>\<open>process_labelme_json\<close> leaves at the path of a file, as a function of what was there:
  a file that holds shapes and nonzero image dimensions gets the result of each shape
  attached, any other file (and a missing one) stays as it is.
\<close>

definition augmented_content :: "pdf_doc \<Rightarrow> int \<Rightarrow> file_content option \<Rightarrow> file_content option"
where
  "augmented_content pdf_doc page_num content =
     (case content of
        Some (Json data) \<Rightarrow>
          (case shapes data of
             None \<Rightarrow> content
           | Some shape_list \<Rightarrow>
               (let image_width = (case imageWidth data of None \<Rightarrow> 0 | Some w \<Rightarrow> w);
                    image_height = (case imageHeight data of None \<Rightarrow> 0 | Some h \<Rightarrow> h)
                in if image_width = 0 \<or> image_height = 0 then content
                   else Some (Json (data\<lparr>shapes := Some
                          (map (\<lambda>shape. shape\<lparr>shape_original_pdf_text_layer :=
                                   Some (shape_result pdf_doc page_num image_width image_height
                                           shape)\<rparr>)
                             shape_list)\<rparr>))))
      | _ \<Rightarrow> content)"

text \<open>
  What the loop over the page files leaves at one path \<open>p\<close>: the files of the list that have
  this path and a page index below the page count are applied in order.
\<close>

fun content_after_pages ::
  "pdf_doc \<Rightarrow> (int \<times> string) list \<Rightarrow> string \<Rightarrow> file_content option \<Rightarrow> file_content option"
where
  "content_after_pages pdf_doc [] p content = content"
| "content_after_pages pdf_doc ((page_num_1based, json_path) # rest) p content =
     content_after_pages pdf_doc rest p
       (if json_path = p \<and> page_num_1based - 1 < page_count pdf_doc
        then augmented_content pdf_doc (page_num_1based - 1) content
        else content)"

text \<open>A document of two pages and a group of each dialect over it, for concrete runs.\<close>

definition sample_document :: pdf_doc where
  "sample_document =
     fitz_document [constant_page 600 800 '' Title '', constant_page 600 800 ''Body text'']"

definition sample_coco_group :: coco_data where
  "sample_coco_group =
     \<lparr>images = Some [\<lparr>img_id = 1, file_name = ''page_1.png''\<rparr>,
                     \<lparr>img_id = 2, file_name = ''page_2.png''\<rparr>],
      annotations = Some [\<lparr>ann_id = 11, ann_image_id = 1, bbox = [10, 20, 30, 40],
                           original_pdf_text_layer = None\<rparr>,
                          \<lparr>ann_id = 12, ann_image_id = 2, bbox = [0, 0, 600, 800],
                           original_pdf_text_layer = None\<rparr>]\<rparr>"

definition sample_labelme_files :: files where
  "sample_labelme_files =
     [''out/doc/images/page_1.json'' \<mapsto>
        Json \<lparr>shapes = Some [\<lparr>label = Some ''title'',
                               points = Some [[100, 100], [300, 300]],
                               shape_original_pdf_text_layer = None\<rparr>],
              imageWidth = Some 1200, imageHeight = Some 1600\<rparr>,
      ''out/doc/images/page_2.json'' \<mapsto>
        Json \<lparr>shapes = Some [\<lparr>label = None,
                               points = Some [[0, 0]],
                               shape_original_pdf_text_layer = None\<rparr>],
              imageWidth = Some 1200, imageHeight = Some 1600\<rparr>]"

section \<open>Properties\<close>

subsection \<open>The page resolver of Dialect A\<close>

lemma page_number_in_no_match:
  "list_all (\<lambda>img. img_id img \<noteq> image_id) ims \<Longrightarrow>
   page_number_in ims image_id = Inr (image_id - 1)"
  by (induction ims) simp_all

text \<open>
  Claim C10. When no record of the group's images list carries the annotation's
  \<^verbatim>\<open>image_id\<close> (or the group has no images list at all), the resolver returns normally
  and its result is \<^verbatim>\<open>image_id - 1\<close>: the identifier itself read as a 1-based page number.
\<close>

theorem resolver_unmatched_image_id:
  assumes "list_all (\<lambda>img. img_id img \<noteq> image_id)
             (case images coco_data of None \<Rightarrow> [] | Some ims \<Rightarrow> ims)"
  shows "get_page_number_from_image_id coco_data image_id = Inr (image_id - 1)"
  using assms by (simp add: get_page_number_from_image_id_def page_number_in_no_match)

theorem resolver_unmatched_image_id_witness:
  "get_page_number_from_image_id
     \<lparr>images = Some [\<lparr>img_id = 1, file_name = ''page_001.jpg''\<rparr>,
                     \<lparr>img_id = 2, file_name = ''page_002.jpg''\<rparr>],
      annotations = Some []\<rparr> 7 = Inr 6
   \<and> get_page_number_from_image_id \<lparr>images = None, annotations = None\<rparr> 7 = Inr 6"
  using resolver_unmatched_image_id
          [of 7 "\<lparr>images = Some [\<lparr>img_id = 1, file_name = ''page_001.jpg''\<rparr>,
                                  \<lparr>img_id = 2, file_name = ''page_002.jpg''\<rparr>],
                   annotations = Some []\<rparr>"]
        resolver_unmatched_image_id [of 7 "\<lparr>images = None, annotations = None\<rparr>"]
  by simp




lemma page_number_in_first_match:
  assumes "find (\<lambda>img. img_id img = image_id) ims = Some img"
  shows "page_number_in ims image_id = page_number_in [img] image_id"
  using assms by (induction ims) (auto split: if_splits)




text \<open>
  The resolver can raise: a base name with more digit characters than \<^verbatim>\<open>int\<close> converts ends
  in \<^verbatim>\<open>ValueError\<close>, and so does one that contains a superscript two, which is a digit for
  \<^verbatim>\<open>str.isdigit\<close> but not a decimal for \<^verbatim>\<open>int\<close>. The call stands outside the \<^verbatim>\<open>try\<close> of the
  annotation loop.
\<close>

lemma resolver_too_many_digits_raises:
  assumes "images coco_data = Some ims"
      and "find (\<lambda>img. img_id img = image_id) ims = Some img"
      and "length (filter isdigit (fst (splitext (basename (file_name img)))))
             > int_max_str_digits"
  shows "get_page_number_from_image_id coco_data image_id = Inl ValueError"
proof -
  have m: "img_id img = image_id"
    using assms(2) by (auto dest: find_Some_iff[THEN iffD1])
  have "filter isdigit (fst (splitext (basename (file_name img)))) \<noteq> []"
    using assms(3) by auto
  then show ?thesis
    using assms m
    by (simp add: get_page_number_from_image_id_def page_number_in_first_match[OF assms(2)]
          int_of_str_def Let_def)
qed

lemma resolver_superscript_digit_raises:
  "get_page_number_from_image_id
     \<lparr>images = Some [\<lparr>img_id = 3, file_name = [CHR ''p'', CHR 0xB2, CHR ''.'', CHR ''j'']\<rparr>],
      annotations = None\<rparr> 3 = Inl ValueError"
  by code_simp

subsection \<open>The coordinate mappers\<close>

text \<open>
  Claim C2. For a Dialect A region \<^verbatim>\<open>bbox = [x, y, w, h]\<close> on a page the document yields, the
  text query is made with the clip rectangle \<open>(x, y, x + w, y + h)\<close>, whatever the page's
  width and height and whatever the text layer answers: no scaling is applied.
\<close>

theorem coco_bbox_identity_rect:
  assumes "page_num < page_count pdf_doc"
      and "getitem pdf_doc page_num = Inr page"
  shows "extract_text_from_bbox pdf_doc page_num [x, y, w, h] =
           (case get_text page \<lparr>x0 = x, y0 = y, x1 = x + w, y1 = y + h\<rparr> of
              Inl e \<Rightarrow> Inl e
            | Inr t \<Rightarrow> Inr (strip t))"
  using assms by (simp add: extract_text_from_bbox_def)

theorem coco_bbox_identity_rect_witness:
  "(0::int) < page_count (fitz_document
       [probe_page 600 800 \<lparr>x0 = 10, y0 = 20, x1 = 40, y1 = 60\<rparr> '' found here  ''])
   \<and> extract_text_from_bbox
       (fitz_document
          [probe_page 600 800 \<lparr>x0 = 10, y0 = 20, x1 = 40, y1 = 60\<rparr> '' found here  ''])
       0 [10, 20, 30, 40] = Inr ''found here''
   \<and> extract_text_from_bbox
       (fitz_document
          [probe_page 300 400 \<lparr>x0 = 10, y0 = 20, x1 = 40, y1 = 60\<rparr> '' found here  ''])
       0 [10, 20, 30, 40] = Inr ''found here''"
proof -
  let ?r = "\<lparr>x0 = 10, y0 = 20, x1 = 40, y1 = 60\<rparr>"
  let ?p = "probe_page 600 800 ?r '' found here  ''"
  let ?q = "probe_page 300 400 ?r '' found here  ''"
  have c: "(0::int) < page_count (fitz_document [?p])"
          "(0::int) < page_count (fitz_document [?q])"
    by (simp_all add: fitz_document_def)
  have g: "getitem (fitz_document [?p]) 0 = Inr ?p" "getitem (fitz_document [?q]) 0 = Inr ?q"
    by (simp_all add: fitz_document_def)
  have t: "get_text ?p \<lparr>x0 = 10, y0 = 20, x1 = 10 + 30, y1 = 20 + 40\<rparr> = Inr '' found here  ''"
          "get_text ?q \<lparr>x0 = 10, y0 = 20, x1 = 10 + 30, y1 = 20 + 40\<rparr> = Inr '' found here  ''"
    by (simp_all add: probe_page_def)
  have s: "strip '' found here  '' = ''found here''"
    by code_simp
  show ?thesis
    using coco_bbox_identity_rect [OF c(1) g(1), of 10 20 30 40]
          coco_bbox_identity_rect [OF c(2) g(2), of 10 20 30 40] c t s
    by simp
qed

text \<open>
  Claim C1. For a Dialect B region given by two corner points, with \<^verbatim>\<open>imageWidth\<close> and
  \<^verbatim>\<open>imageHeight\<close> both nonzero, on a page the document yields, the text query is made with the
  clip rectangle whose corners are the componentwise minimum and maximum of the two points,
  the x-coordinates multiplied by \<open>pageWidth / imageWidth\<close> and the y-coordinates by
  \<open>pageHeight / imageHeight\<close>; the y axis is not flipped. On a page of 600 by 800 points,
  with \<^verbatim>\<open>imageWidth = 1200\<close>, \<^verbatim>\<open>imageHeight = 1600\<close> and the points \<^verbatim>\<open>[[100,100],[300,300]]\<close>, the
  rectangle is \<open>(50, 50, 150, 150)\<close>.
\<close>

theorem labelme_scaled_rect:
  assumes "page_num < page_count pdf_doc"
      and "getitem pdf_doc page_num = Inr page"
      and "image_width \<noteq> 0" and "image_height \<noteq> 0"
  shows "extract_text_from_labelme_bbox pdf_doc page_num [[xa, ya], [xb, yb]]
             image_width image_height =
           (case get_text page
                   \<lparr>x0 = min xa xb * (page_width page / image_width),
                    y0 = min ya yb * (page_height page / image_height),
                    x1 = max xa xb * (page_width page / image_width),
                    y1 = max ya yb * (page_height page / image_height)\<rparr> of
              Inl e \<Rightarrow> Inl e
            | Inr t \<Rightarrow> Inr (strip t))
         \<and> (page_width page = 600 \<and> page_height page = 800 \<longrightarrow>
              extract_text_from_labelme_bbox pdf_doc page_num [[100, 100], [300, 300]]
                  1200 1600 =
                (case get_text page \<lparr>x0 = 50, y0 = 50, x1 = 150, y1 = 150\<rparr> of
                   Inl e \<Rightarrow> Inl e
                 | Inr t \<Rightarrow> Inr (strip t)))"
  using assms by (simp add: extract_text_from_labelme_bbox_def Let_def)

theorem labelme_scaled_rect_witness:
  "(0::int) < page_count
       (fitz_document [probe_page 600 800 \<lparr>x0 = 50, y0 = 50, x1 = 150, y1 = 150\<rparr> ''Title'',
                       constant_page 600 800 []])
   \<and> (1200::rat) \<noteq> 0 \<and> (1600::rat) \<noteq> 0
   \<and> extract_text_from_labelme_bbox
       (fitz_document [probe_page 600 800 \<lparr>x0 = 50, y0 = 50, x1 = 150, y1 = 150\<rparr> ''Title'',
                       constant_page 600 800 []])
       0 [[100, 100], [300, 300]] 1200 1600 = Inr ''Title''
   \<and> extract_text_from_labelme_bbox
       (fitz_document [probe_page 600 800 \<lparr>x0 = 50, y0 = 50, x1 = 150, y1 = 150\<rparr> ''Title'',
                       constant_page 600 800 []])
       0 [[300, 100], [100, 300]] 1200 1600 = Inr ''Title''"
proof -
  let ?p = "probe_page 600 800 \<lparr>x0 = 50, y0 = 50, x1 = 150, y1 = 150\<rparr> ''Title''"
  let ?d = "fitz_document [?p, constant_page 600 800 []]"
  have c: "(0::int) < page_count ?d"
    by (simp add: fitz_document_def)
  have g: "getitem ?d 0 = Inr ?p"
    by (simp add: fitz_document_def)
  have n: "(1200::rat) \<noteq> 0" "(1600::rat) \<noteq> 0"
    by simp_all
  have dims: "page_width ?p = 600" "page_height ?p = 800"
    by (simp_all add: probe_page_def)
  have t: "get_text ?p \<lparr>x0 = 50, y0 = 50, x1 = 150, y1 = 150\<rparr> = Inr ''Title''"
    by (simp add: probe_page_def)
  have s: "strip ''Title'' = ''Title''"
    by code_simp
  have a: "extract_text_from_labelme_bbox ?d 0 [[100, 100], [300, 300]] 1200 1600
             = Inr ''Title''"
    using labelme_scaled_rect [OF c g n, of 100 100 300 300] dims t s by simp
  have b: "extract_text_from_labelme_bbox ?d 0 [[300, 100], [100, 300]] 1200 1600
             = Inr ''Title''"
    using labelme_scaled_rect [OF c g n, of 300 100 100 300] dims t s by simp
  from a b c show ?thesis by simp
qed

subsection \<open>Page indices outside the document\<close>

text \<open>
  Both extractors test the page index against the page count from above only. An index
  at or beyond the page count gives the empty string, and no page is looked up.
\<close>

lemma extract_text_from_bbox_beyond_count:
  "page_count pdf_doc \<le> page_num \<Longrightarrow> extract_text_from_bbox pdf_doc page_num bbox_coco = Inr []"
  by (simp add: extract_text_from_bbox_def)

lemma extract_text_from_labelme_bbox_beyond_count:
  "page_count pdf_doc \<le> page_num \<Longrightarrow>
   extract_text_from_labelme_bbox pdf_doc page_num labelme_points image_width image_height
     = Inr []"
  by (simp add: extract_text_from_labelme_bbox_def)

text \<open>
  A negative index passes the test, and the page lookup is made with it: the result of the
  extractor is then whatever the looked-up page answers, or the error of the lookup.
\<close>

lemma extract_text_from_bbox_below_count:
  "page_num < page_count pdf_doc \<Longrightarrow>
   extract_text_from_bbox pdf_doc page_num [x, y, w, h] =
     (case getitem pdf_doc page_num of
        Inl e \<Rightarrow> Inl e
      | Inr page \<Rightarrow>
          (case get_text page \<lparr>x0 = x, y0 = y, x1 = x + w, y1 = y + h\<rparr> of
             Inl e \<Rightarrow> Inl e
           | Inr t \<Rightarrow> Inr (strip t)))"
  by (simp add: extract_text_from_bbox_def split: sum.splits)

text \<open>
  Claim C5 fails for negative indices. On a document of two pages, index \<open>-1\<close> is outside
  \<open>[0, 2)\<close>; both extractors return the text of the last page instead of the empty string.
\<close>

theorem extractors_negative_page_index:
  "extract_text_from_bbox
     (fitz_document [constant_page 600 800 ''first page'', constant_page 600 800 ''last page''])
     (- 1) [10, 20, 30, 40] = Inr ''last page''
   \<and> extract_text_from_labelme_bbox
     (fitz_document [constant_page 600 800 ''first page'', constant_page 600 800 ''last page''])
     (- 1) [[100, 100], [300, 300]] 1200 1600 = Inr ''last page''"
  by code_simp

subsection \<open>The page files of Dialect B\<close>

lemma match_page_json_decimal:
  "match_page_json filename = Some group1 \<Longrightarrow> group1 \<noteq> [] \<and> list_all isdecimal group1"
  by (auto simp: match_page_json_def Let_def list_all_iff split: if_splits
           dest: set_takeWhileD)

lemma match_page_json_length:
  "match_page_json filename = Some group1 \<Longrightarrow> length group1 \<le> length filename"
proof -
  assume "match_page_json filename = Some group1"
  then have "group1 = takeWhile isdecimal (drop 5 filename)"
    by (auto simp: match_page_json_def Let_def split: if_splits)
  then show ?thesis
    using length_takeWhile_le [of isdecimal "drop 5 filename"] by simp
qed

lemma match_page_json_int:
  assumes "match_page_json filename = Some group1"
      and "length filename \<le> int_max_str_digits"
  shows "int_of_str group1 = Inr (decimal_value group1)"
  using match_page_json_decimal [OF assms(1)] match_page_json_length [OF assms(1)] assms(2)
  by (simp add: int_of_str_def)

lemma int_of_str_value: "int_of_str s = Inr n \<Longrightarrow> n = decimal_value s"
  by (simp add: int_of_str_def split: if_splits)

text \<open>
  When the scan of the directory returns, its result is the pairs of the names that pass
  both tests, in the order of the listing. The conversion of the matched digits fails only
  on more digits than \<^verbatim>\<open>int\<close> converts, so the scan returns when no name is longer than that
  (a file system bounds the length of a name far below).
\<close>

lemma collect_page_json_eq:
  "collect_page_json images_dir filenames = Inr json_files \<Longrightarrow>
   json_files =
     map (\<lambda>filename. (decimal_value (the (match_page_json filename)),
                       path_join images_dir filename))
       (filter (\<lambda>filename. endswith (lower filename) ''.json''
                           \<and> match_page_json filename \<noteq> None) filenames)"
proof (induction filenames arbitrary: json_files)
  case Nil
  then show ?case by simp
next
  case (Cons filename rest)
  show ?case
  proof (cases "endswith (lower filename) ''.json'' \<and> match_page_json filename \<noteq> None")
    case False
    with Cons show ?thesis
      by (auto split: option.splits)
  next
    case True
    then obtain group1 where g: "match_page_json filename = Some group1"
      by auto
    from Cons.prems True g obtain n where n: "int_of_str group1 = Inr n"
      by (cases "int_of_str group1") simp_all
    from Cons.prems True g n obtain tl where
      t: "collect_page_json images_dir rest = Inr tl"
      and j: "json_files = (n, path_join images_dir filename) # tl"
      by (cases "collect_page_json images_dir rest") auto
    from Cons.IH [OF t] True g j int_of_str_value [OF n] show ?thesis
      by simp
  qed
qed

lemma collect_page_json_returns:
  "list_all (\<lambda>filename. length filename \<le> int_max_str_digits) filenames \<Longrightarrow>
   \<exists>json_files. collect_page_json images_dir filenames = Inr json_files"
  by (induction filenames) (auto simp: match_page_json_int split: option.splits)

lemma get_page_json_files_eq:
  "get_page_json_files images_dir (Some filenames) = Inr page_json_files \<Longrightarrow>
   page_json_files =
     sort_key fst
       (map (\<lambda>filename. (decimal_value (the (match_page_json filename)),
                          path_join images_dir filename))
          (filter (\<lambda>filename. endswith (lower filename) ''.json''
                              \<and> match_page_json filename \<noteq> None) filenames))"
  by (cases "collect_page_json images_dir filenames")
     (auto simp: get_page_json_files_def dest: collect_page_json_eq)

lemma get_page_json_files_returns:
  "list_all (\<lambda>filename. length filename \<le> int_max_str_digits) filenames \<Longrightarrow>
   \<exists>page_json_files.
     get_page_json_files images_dir (Some filenames) = Inr page_json_files"
  using collect_page_json_returns [of filenames images_dir]
  by (auto simp: get_page_json_files_def)

text \<open>The result is in ascending order of the page numbers.\<close>

lemma get_page_json_files_sorted:
  "get_page_json_files images_dir listing = Inr page_json_files \<Longrightarrow>
   sorted (map fst page_json_files)"
proof (cases listing)
  case None
  assume "get_page_json_files images_dir listing = Inr page_json_files"
  with None show ?thesis
    by (simp add: get_page_json_files_def)
next
  case (Some filenames)
  assume "get_page_json_files images_dir listing = Inr page_json_files"
  from get_page_json_files_eq [OF this [unfolded Some]] show ?thesis
    by simp
qed

text \<open>
  A name of the form the specification describes passes both tests, with the value of its
  digits as page number.
\<close>

lemma spec_page_file_name_collected:
  assumes "spec_page_file_name filename"
  shows "endswith (lower filename) ''.json''
         \<and> match_page_json filename = Some (takeWhile isdecimal (drop 5 filename))"
proof -
  define digits where "digits = takeWhile isdecimal (drop 5 filename)"
  have d: "digits \<noteq> []" and l: "lower filename = ''page_'' @ digits @ ''.json''"
    using assms by (simp_all add: spec_page_file_name_def digits_def Let_def)
  have len: "length filename = 5 + length digits + 5"
    using arg_cong [OF l, of length] by (simp add: lower_def)
  have e: "endswith (lower filename) ''.json''"
    using l by (simp add: endswith_def)
  have t5: "lower (take 5 filename) = ''page_''"
    using arg_cong [OF l, of "take 5"] by (simp add: lower_def take_map)
  have "map lower_char (drop 5 filename) = digits @ ''.json''"
    using arg_cong [OF l, of "drop 5"] by (simp add: lower_def drop_map)
  then have "drop (length digits) (map lower_char (drop 5 filename)) = ''.json''"
    by simp
  then have "lower (drop (length digits) (drop 5 filename)) = ''.json''"
    by (simp add: lower_def drop_map)
  then have "lower (take 5 (drop (length digits) (drop 5 filename))) = ''.json''"
    using len by (simp add: lower_def)
  with t5 d e show ?thesis
    by (simp add: match_page_json_def Let_def digits_def)
qed

text \<open>
  Claim C6 fails on the set of names collected. The pattern is anchored at the start of the
  name only, so a name that continues after \<^verbatim>\<open>page_<N>.json\<close> and ends in \<^verbatim>\<open>.json\<close> again is
  collected as page \<open>N\<close>, although it is not a \<^verbatim>\<open>page_<N>\<close> file with a JSON extension. The
  ordering of the claim holds: \<^verbatim>\<open>page_2.json\<close> stands before \<^verbatim>\<open>page_10.json\<close>.
\<close>

theorem get_page_json_files_unanchored_name:
  "get_page_json_files ''doc/images''
       (Some [''page_10.json'', ''page_2.json.bak.json'', ''notes.json'', ''page_2.json''])
     = Inr [(2, ''doc/images/page_2.json.bak.json''),
            (2, ''doc/images/page_2.json''),
            (10, ''doc/images/page_10.json'')]
   \<and> \<not> spec_page_file_name ''page_2.json.bak.json''
   \<and> spec_page_file_name ''page_2.json''
   \<and> spec_page_file_name ''page_10.json''"
  by code_simp

subsection \<open>What the loops leave on the regions\<close>

lemma process_shape_fst:
  "fst (process_shape pdf_doc page_num image_width image_height verbose shape) =
     shape\<lparr>shape_original_pdf_text_layer :=
             Some (shape_result pdf_doc page_num image_width image_height shape)\<rparr>"
  by (simp add: process_shape_def shape_result_def split: sum.splits)

lemma shapes_loop_fst:
  "fst (shapes_loop pdf_doc page_num image_width image_height verbose shape_list) =
     map (\<lambda>shape. shape\<lparr>shape_original_pdf_text_layer :=
                            Some (shape_result pdf_doc page_num image_width image_height shape)\<rparr>)
       shape_list"
proof (induction shape_list)
  case Nil
  show ?case by simp
next
  case (Cons shape rest)
  then show ?case
    by (simp add: split_beta process_shape_fst)
qed

lemma shape_result_text_irrelevant:
  "shape_result pdf_doc page_num image_width image_height
     (shape\<lparr>shape_original_pdf_text_layer := t\<rparr>) =
   shape_result pdf_doc page_num image_width image_height shape"
  by (simp add: shape_result_def)

lemma process_labelme_json_files:
  "fst (snd (process_labelme_json files json_path pdf_doc page_num verbose)) =
     files(json_path := augmented_content pdf_doc page_num (files json_path))"
proof (cases "files json_path")
  case None
  then have "files(json_path := None) = files"
    by (simp add: fun_upd_idem_iff)
  with None show ?thesis
    by (simp add: process_labelme_json_def augmented_content_def)
next
  case (Some content)
  have u: "files(json_path \<mapsto> content) = files"
    using Some by (simp add: fun_upd_idem_iff)
  show ?thesis
  proof (cases content)
    case Invalid_json
    with Some u show ?thesis
      by (simp add: process_labelme_json_def augmented_content_def)
  next
    case (Json data)
    with Some u show ?thesis
      by (cases "shapes data")
         (simp_all add: process_labelme_json_def augmented_content_def Let_def split_beta
            shapes_loop_fst)
  qed
qed

lemma augmented_content_absorb:
  "augmented_content pdf_doc n (augmented_content pdf_doc m content) =
   augmented_content pdf_doc n content"
  by (auto simp: augmented_content_def Let_def shape_result_text_irrelevant o_def
           split: option.splits file_content.splits)

lemma pages_loop_files:
  "fst (pages_loop pdf_doc verbose page_json_files files) p =
     content_after_pages pdf_doc page_json_files p (files p)"
proof (induction page_json_files arbitrary: files)
  case Nil
  show ?case by simp
next
  case (Cons x rest)
  obtain n json_path where x: "x = (n, json_path)"
    by (cases x)
  show ?case
  proof (cases "page_count pdf_doc \<le> n - 1")
    case True
    then show ?thesis
      using Cons.IH [of files] by (simp add: x split_beta Let_def)
  next
    case False
    let ?files1 = "files(json_path := augmented_content pdf_doc (n - 1) (files json_path))"
    have a: "fst (pages_loop pdf_doc verbose (x # rest) files) =
             fst (pages_loop pdf_doc verbose rest ?files1)"
      using False process_labelme_json_files [of files json_path pdf_doc "n - 1" verbose]
      by (simp add: x split_beta Let_def)
    have b: "fst (pages_loop pdf_doc verbose rest ?files1) p =
             content_after_pages pdf_doc rest p (?files1 p)"
      by (rule Cons.IH)
    have c: "content_after_pages pdf_doc (x # rest) p (files p) =
             content_after_pages pdf_doc rest p (?files1 p)"
      using False by (simp add: x)
    show ?thesis
      by (simp only: a b c)
  qed
qed

lemma augmented_after_pages:
  "augmented_content pdf_doc k (content_after_pages pdf_doc page_json_files p content) =
   augmented_content pdf_doc k content"
  by (induction pdf_doc page_json_files p content rule: content_after_pages.induct)
     (simp_all add: augmented_content_absorb)

lemma content_after_pages_append:
  "content_after_pages pdf_doc (xs @ ys) p content =
   content_after_pages pdf_doc ys p (content_after_pages pdf_doc xs p content)"
  by (induction pdf_doc xs p content rule: content_after_pages.induct) simp_all

lemma content_after_pages_idem:
  "content_after_pages pdf_doc page_json_files p
     (content_after_pages pdf_doc page_json_files p content) =
   content_after_pages pdf_doc page_json_files p content"
proof (induction page_json_files arbitrary: content rule: rev_induct)
  case Nil
  show ?case by simp
next
  case (snoc x xs)
  obtain n json_path where x: "x = (n, json_path)"
    by (cases x)
  show ?case
    using snoc.IH
    by (simp add: x content_after_pages_append augmented_after_pages augmented_content_absorb)
qed

lemma pages_loop_idem:
  "fst (pages_loop pdf_doc verbose page_json_files
          (fst (pages_loop pdf_doc verbose page_json_files files))) =
   fst (pages_loop pdf_doc verbose page_json_files files)"
  by (rule ext) (simp add: pages_loop_files content_after_pages_idem)

text \<open>In quiet mode the Dialect B functions print nothing.\<close>

lemma process_shape_quiet:
  "snd (snd (process_shape pdf_doc page_num image_width image_height False shape)) = []"
  by (simp add: process_shape_def split: sum.splits)

lemma shapes_loop_quiet:
  "snd (snd (shapes_loop pdf_doc page_num image_width image_height False shape_list)) = []"
  by (induction shape_list) (simp_all add: split_beta process_shape_quiet)

lemma process_labelme_json_quiet:
  "snd (snd (process_labelme_json files json_path pdf_doc page_num False)) = []"
  by (simp add: process_labelme_json_def Let_def split_beta shapes_loop_quiet
        split: option.splits file_content.splits)

lemma pages_loop_quiet:
  "snd (snd (pages_loop pdf_doc False page_json_files files)) = []"
proof (induction page_json_files arbitrary: files)
  case Nil
  show ?case by simp
next
  case (Cons x rest)
  obtain n json_path where x: "x = (n, json_path)"
    by (cases x)
  show ?case
    by (simp add: x Let_def split_beta Cons.IH process_labelme_json_quiet)
qed

subsection \<open>Files without image dimensions\<close>

text \<open>
  Claim C4 (as amended). For a Dialect B file that holds a shapes list and whose
  \<^verbatim>\<open>imageWidth\<close> or \<^verbatim>\<open>imageHeight\<close> is zero (or missing, which \<^verbatim>\<open>data.get\<close> reads as zero), the
  extractor is never called, so nothing is divided or scaled: \<^verbatim>\<open>process_labelme_json\<close> returns
  0, prints its warning when verbose, and leaves the files as they are. The file is skipped
  as a whole; no result is attached to its shapes.
\<close>

theorem zero_image_dimensions_skip_file:
  assumes "files json_path = Some (Json data)"
      and "shapes data = Some shape_list"
      and "imageWidth data = Some 0 \<or> imageWidth data = None
           \<or> imageHeight data = Some 0 \<or> imageHeight data = None"
  shows "process_labelme_json files json_path pdf_doc page_num verbose =
           (0, files,
            if verbose then [L_warn_no_image_dimensions (basename json_path)] else [])"
  using assms by (auto simp: process_labelme_json_def split: option.splits)

theorem zero_image_dimensions_skip_file_witness:
  "process_labelme_json
     [''doc/images/page_1.json'' \<mapsto>
        Json \<lparr>shapes = Some [\<lparr>label = Some ''title'',
                               points = Some [[100, 100], [300, 300]],
                               shape_original_pdf_text_layer = None\<rparr>],
              imageWidth = Some 0, imageHeight = Some 1600\<rparr>]
     ''doc/images/page_1.json''
     (fitz_document [constant_page 600 800 ''Title''])
     0 True
   = (0,
      [''doc/images/page_1.json'' \<mapsto>
        Json \<lparr>shapes = Some [\<lparr>label = Some ''title'',
                               points = Some [[100, 100], [300, 300]],
                               shape_original_pdf_text_layer = None\<rparr>],
              imageWidth = Some 0, imageHeight = Some 1600\<rparr>],
      [L_warn_no_image_dimensions ''page_1.json''])"
proof -
  have b: "basename ''doc/images/page_1.json'' = ''page_1.json''"
    by code_simp
  show ?thesis
    using zero_image_dimensions_skip_file
            [of "[''doc/images/page_1.json'' \<mapsto>
                    Json \<lparr>shapes = Some [\<lparr>label = Some ''title'',
                                           points = Some [[100, 100], [300, 300]],
                                           shape_original_pdf_text_layer = None\<rparr>],
                          imageWidth = Some 0, imageHeight = Some 1600\<rparr>]"
                "''doc/images/page_1.json''"
                "\<lparr>shapes = Some [\<lparr>label = Some ''title'',
                                     points = Some [[100, 100], [300, 300]],
                                     shape_original_pdf_text_layer = None\<rparr>],
                    imageWidth = Some 0, imageHeight = Some 1600\<rparr>"
                "[\<lparr>label = Some ''title'',
                   points = Some [[100, 100], [300, 300]],
                   shape_original_pdf_text_layer = None\<rparr>]"
                "fitz_document [constant_page 600 800 ''Title'']" 0 True]
          b
    by simp
qed

text \<open>
  The claim as stated fails: after the call the shape of such a file carries no
  \<^verbatim>\<open>original_pdf_text_layer\<close> at all, where the claim has the empty string attached.
\<close>

theorem zero_image_dimensions_counterexample:
  "fst (snd (process_labelme_json
     [''doc/images/page_1.json'' \<mapsto>
        Json \<lparr>shapes = Some [\<lparr>label = Some ''title'',
                               points = Some [[100, 100], [300, 300]],
                               shape_original_pdf_text_layer = None\<rparr>],
              imageWidth = Some 0, imageHeight = Some 1600\<rparr>]
     ''doc/images/page_1.json''
     (fitz_document [constant_page 600 800 ''Title''])
     0 True)) ''doc/images/page_1.json''
   = Some (Json \<lparr>shapes = Some [\<lparr>label = Some ''title'',
                                    points = Some [[100, 100], [300, 300]],
                                    shape_original_pdf_text_layer = None\<rparr>],
                   imageWidth = Some 0, imageHeight = Some 1600\<rparr>)
   \<and> fst (process_labelme_json
     [''doc/images/page_1.json'' \<mapsto>
        Json \<lparr>shapes = Some [\<lparr>label = Some ''title'',
                               points = Some [[100, 100], [300, 300]],
                               shape_original_pdf_text_layer = None\<rparr>],
              imageWidth = Some 0, imageHeight = Some 1600\<rparr>]
     ''doc/images/page_1.json''
     (fitz_document [constant_page 600 800 ''Title''])
     0 True) = 0"
  by code_simp

subsection \<open>Failures of the text query\<close>

lemma process_annotation_resolved:
  assumes "get_page_number_from_image_id coco_data (ann_image_id ann) = Inr page_num"
  shows "\<exists>k msgs. process_annotation pdf_doc coco_data n i ann =
           Inr (ann\<lparr>original_pdf_text_layer := Some (annotation_result pdf_doc page_num ann)\<rparr>,
                k, msgs)
           \<and> (\<forall>e. extract_text_from_bbox pdf_doc page_num (bbox ann) = Inl e
                  \<longrightarrow> Warn_extract_failed (ann_id ann) e \<in> set msgs)"
  using assms
  by (cases "extract_text_from_bbox pdf_doc page_num (bbox ann)")
     (simp_all add: process_annotation_def annotation_result_def Let_def)

lemma annotations_loop_resolved:
  assumes "list_all (\<lambda>ann. \<not> isl (get_page_number_from_image_id coco_data (ann_image_id ann)))
             anns"
  shows "\<exists>k msgs. annotations_loop pdf_doc coco_data n i anns =
           Inr (map (\<lambda>ann. ann\<lparr>original_pdf_text_layer :=
                      Some (annotation_result pdf_doc
                              (projr (get_page_number_from_image_id coco_data (ann_image_id ann)))
                              ann)\<rparr>) anns,
                k, msgs)
           \<and> (\<forall>ann \<in> set anns. \<forall>e.
                 extract_text_from_bbox pdf_doc
                   (projr (get_page_number_from_image_id coco_data (ann_image_id ann)))
                   (bbox ann) = Inl e
                 \<longrightarrow> Warn_extract_failed (ann_id ann) e \<in> set msgs)"
  using assms
proof (induction anns arbitrary: i)
  case Nil
  show ?case by simp
next
  case (Cons ann rest)
  from Cons.prems obtain page_num
    where r: "get_page_number_from_image_id coco_data (ann_image_id ann) = Inr page_num"
    by (cases "get_page_number_from_image_id coco_data (ann_image_id ann)") simp_all
  from process_annotation_resolved [OF r] obtain k msgs
    where p: "process_annotation pdf_doc coco_data n i ann =
                Inr (ann\<lparr>original_pdf_text_layer :=
                          Some (annotation_result pdf_doc page_num ann)\<rparr>, k, msgs)"
      and w: "\<forall>e. extract_text_from_bbox pdf_doc page_num (bbox ann) = Inl e
                  \<longrightarrow> Warn_extract_failed (ann_id ann) e \<in> set msgs"
    by blast
  from Cons.prems have "list_all
      (\<lambda>ann. \<not> isl (get_page_number_from_image_id coco_data (ann_image_id ann))) rest"
    by simp
  from Cons.IH [OF this, of "Suc i"] obtain k' msgs'
    where l: "annotations_loop pdf_doc coco_data n (Suc i) rest =
                Inr (map (\<lambda>ann. ann\<lparr>original_pdf_text_layer :=
                      Some (annotation_result pdf_doc
                              (projr (get_page_number_from_image_id coco_data (ann_image_id ann)))
                              ann)\<rparr>) rest, k', msgs')"
      and w': "\<forall>ann \<in> set rest. \<forall>e.
                 extract_text_from_bbox pdf_doc
                   (projr (get_page_number_from_image_id coco_data (ann_image_id ann)))
                   (bbox ann) = Inl e
                 \<longrightarrow> Warn_extract_failed (ann_id ann) e \<in> set msgs'"
    by blast
  show ?case
    using p l w w' r by simp
qed

lemma process_shape_failure:
  assumes "points shape = Some pts" and "2 \<le> length pts"
      and "extract_text_from_labelme_bbox pdf_doc page_num pts image_width image_height = Inl e"
  shows "process_shape pdf_doc page_num image_width image_height verbose shape =
           (shape\<lparr>shape_original_pdf_text_layer := Some []\<rparr>, 0,
            if verbose then [L_warn_shape_failed e] else [])"
  using assms by (simp add: process_shape_def)

lemma shapes_loop_warnings:
  "\<forall>shape \<in> set shape_list. \<forall>pts e.
      points shape = Some pts \<and> 2 \<le> length pts \<and> verbose
      \<and> extract_text_from_labelme_bbox pdf_doc page_num pts image_width image_height = Inl e
      \<longrightarrow> L_warn_shape_failed e
            \<in> set (snd (snd (shapes_loop pdf_doc page_num image_width image_height verbose
                               shape_list)))"
  by (induction shape_list) (auto simp: split_beta process_shape_failure)

text \<open>
  Claim C7 (as amended). A failure raised inside the extractor (the page lookup, the
  unpacking of the region, the division, the text query) is caught by the \<^verbatim>\<open>try\<close> around the
  extractor call: the region gets the empty string, and processing goes on with the next
  region, so that the loop returns with a result attached to every region. The warning is
  printed by the Dialect A loop always and by the Dialect B loop when \<open>verbose\<close> is set; in
  quiet mode the Dialect B loop prints nothing.
  In Dialect A the page resolver is called before the \<^verbatim>\<open>try\<close>; the statement is for groups on
  which it returns.
\<close>

theorem text_query_failure_absorbed:
  assumes "list_all (\<lambda>ann. \<not> isl (get_page_number_from_image_id coco_data (ann_image_id ann)))
             anns"
  shows "(\<exists>k msgs.
            annotations_loop pdf_doc coco_data n i anns =
              Inr (map (\<lambda>ann. ann\<lparr>original_pdf_text_layer :=
                     Some (annotation_result pdf_doc
                             (projr (get_page_number_from_image_id coco_data (ann_image_id ann)))
                             ann)\<rparr>) anns,
                   k, msgs)
            \<and> (\<forall>ann \<in> set anns. \<forall>e.
                  extract_text_from_bbox pdf_doc
                    (projr (get_page_number_from_image_id coco_data (ann_image_id ann)))
                    (bbox ann) = Inl e
                  \<longrightarrow> annotation_result pdf_doc
                        (projr (get_page_number_from_image_id coco_data (ann_image_id ann)))
                        ann = []
                      \<and> Warn_extract_failed (ann_id ann) e \<in> set msgs))
         \<and> (\<exists>k msgs.
            shapes_loop pdf_doc page_num image_width image_height verbose shape_list =
              (map (\<lambda>shape. shape\<lparr>shape_original_pdf_text_layer :=
                      Some (shape_result pdf_doc page_num image_width image_height shape)\<rparr>)
                 shape_list,
               k, msgs)
            \<and> (\<forall>shape \<in> set shape_list. \<forall>pts e.
                  points shape = Some pts \<and> 2 \<le> length pts
                  \<and> extract_text_from_labelme_bbox pdf_doc page_num pts image_width image_height
                      = Inl e
                  \<longrightarrow> shape_result pdf_doc page_num image_width image_height shape = []
                      \<and> (verbose \<longrightarrow> L_warn_shape_failed e \<in> set msgs))
            \<and> (\<not> verbose \<longrightarrow> msgs = []))"
proof -
  have a: "\<exists>k msgs.
            annotations_loop pdf_doc coco_data n i anns =
              Inr (map (\<lambda>ann. ann\<lparr>original_pdf_text_layer :=
                     Some (annotation_result pdf_doc
                             (projr (get_page_number_from_image_id coco_data (ann_image_id ann)))
                             ann)\<rparr>) anns,
                   k, msgs)
            \<and> (\<forall>ann \<in> set anns. \<forall>e.
                  extract_text_from_bbox pdf_doc
                    (projr (get_page_number_from_image_id coco_data (ann_image_id ann)))
                    (bbox ann) = Inl e
                  \<longrightarrow> annotation_result pdf_doc
                        (projr (get_page_number_from_image_id coco_data (ann_image_id ann)))
                        ann = []
                      \<and> Warn_extract_failed (ann_id ann) e \<in> set msgs)"
    using annotations_loop_resolved [OF assms, of pdf_doc n i]
    by (auto simp: annotation_result_def)
  let ?res = "shapes_loop pdf_doc page_num image_width image_height verbose shape_list"
  have b1: "?res = (map (\<lambda>shape. shape\<lparr>shape_original_pdf_text_layer :=
                      Some (shape_result pdf_doc page_num image_width image_height shape)\<rparr>)
                 shape_list, fst (snd ?res), snd (snd ?res))"
    using shapes_loop_fst [of pdf_doc page_num image_width image_height verbose shape_list]
    by (metis prod.collapse)
  have b2: "\<forall>shape \<in> set shape_list. \<forall>pts e.
              points shape = Some pts \<and> 2 \<le> length pts
              \<and> extract_text_from_labelme_bbox pdf_doc page_num pts image_width image_height
                  = Inl e
              \<longrightarrow> shape_result pdf_doc page_num image_width image_height shape = []
                  \<and> (verbose \<longrightarrow> L_warn_shape_failed e \<in> set (snd (snd ?res)))"
    using shapes_loop_warnings
            [of shape_list verbose pdf_doc page_num image_width image_height]
    by (auto simp: shape_result_def)
  have b3: "\<not> verbose \<longrightarrow> snd (snd ?res) = []"
    by (simp add: shapes_loop_quiet)
  from a b1 b2 b3 show ?thesis
    by blast
qed

text \<open>
  The claim as stated fails on the warning: in quiet mode the Dialect B loop absorbs the
  failure of the text query and prints nothing.
\<close>

theorem quiet_failure_counterexample:
  "extract_text_from_labelme_bbox (fitz_document [failing_page 600 800]) 0
       [[100, 100], [300, 300]] 1200 1600 = Inl TextQueryFailure
   \<and> process_shape (fitz_document [failing_page 600 800]) 0 1200 1600 False
       \<lparr>label = Some ''title'', points = Some [[100, 100], [300, 300]],
        shape_original_pdf_text_layer = None\<rparr>
     = (\<lparr>label = Some ''title'', points = Some [[100, 100], [300, 300]],
         shape_original_pdf_text_layer = Some []\<rparr>, 0, [])"
  by code_simp

theorem text_query_failure_absorbed_witness:
  "list_all
     (\<lambda>ann. \<not> isl (get_page_number_from_image_id
                      \<lparr>images = Some [\<lparr>img_id = 1, file_name = ''page_1.png''\<rparr>,
                                      \<lparr>img_id = 2, file_name = ''page_2.png''\<rparr>],
                       annotations = None\<rparr> (ann_image_id ann)))
     [\<lparr>ann_id = 11, ann_image_id = 1, bbox = [10, 20, 30, 40],
       original_pdf_text_layer = None\<rparr>,
      \<lparr>ann_id = 12, ann_image_id = 2, bbox = [10, 20, 30, 40],
       original_pdf_text_layer = None\<rparr>]
   \<and> map original_pdf_text_layer
       (fst (projr (annotations_loop
          (fitz_document [failing_page 600 800, constant_page 600 800 ''Body text''])
          \<lparr>images = Some [\<lparr>img_id = 1, file_name = ''page_1.png''\<rparr>,
                          \<lparr>img_id = 2, file_name = ''page_2.png''\<rparr>],
           annotations = None\<rparr> 2 0
          [\<lparr>ann_id = 11, ann_image_id = 1, bbox = [10, 20, 30, 40],
            original_pdf_text_layer = None\<rparr>,
           \<lparr>ann_id = 12, ann_image_id = 2, bbox = [10, 20, 30, 40],
            original_pdf_text_layer = None\<rparr>])))
     = [Some [], Some ''Body text'']
   \<and> Warn_extract_failed 11 TextQueryFailure
       \<in> set (snd (snd (projr (annotations_loop
          (fitz_document [failing_page 600 800, constant_page 600 800 ''Body text''])
          \<lparr>images = Some [\<lparr>img_id = 1, file_name = ''page_1.png''\<rparr>,
                          \<lparr>img_id = 2, file_name = ''page_2.png''\<rparr>],
           annotations = None\<rparr> 2 0
          [\<lparr>ann_id = 11, ann_image_id = 1, bbox = [10, 20, 30, 40],
            original_pdf_text_layer = None\<rparr>,
           \<lparr>ann_id = 12, ann_image_id = 2, bbox = [10, 20, 30, 40],
            original_pdf_text_layer = None\<rparr>]))))
   \<and> map shape_original_pdf_text_layer
       (fst (shapes_loop
          (fitz_document [failing_page 600 800, constant_page 600 800 ''Body text''])
          0 1200 1600 True
          [\<lparr>label = Some ''title'', points = Some [[100, 100], [300, 300]],
            shape_original_pdf_text_layer = None\<rparr>,
           \<lparr>label = None, points = Some [[5, 5]],
            shape_original_pdf_text_layer = None\<rparr>]))
     = [Some [], Some []]
   \<and> L_warn_shape_failed TextQueryFailure
       \<in> set (snd (snd (shapes_loop
          (fitz_document [failing_page 600 800, constant_page 600 800 ''Body text''])
          0 1200 1600 True
          [\<lparr>label = Some ''title'', points = Some [[100, 100], [300, 300]],
            shape_original_pdf_text_layer = None\<rparr>,
           \<lparr>label = None, points = Some [[5, 5]],
            shape_original_pdf_text_layer = None\<rparr>])))"
proof -
  let ?doc = "fitz_document [failing_page 600 800, constant_page 600 800 ''Body text'']"
  let ?coco = "\<lparr>images = Some [\<lparr>img_id = 1, file_name = ''page_1.png''\<rparr>,
                                \<lparr>img_id = 2, file_name = ''page_2.png''\<rparr>],
                 annotations = None\<rparr>"
  let ?a1 = "\<lparr>ann_id = 11, ann_image_id = 1, bbox = [10, 20, 30, 40],
              original_pdf_text_layer = None\<rparr>"
  let ?a2 = "\<lparr>ann_id = 12, ann_image_id = 2, bbox = [10, 20, 30, 40],
              original_pdf_text_layer = None\<rparr>"
  let ?s1 = "\<lparr>label = Some ''title'', points = Some [[100, 100], [300, 300]],
              shape_original_pdf_text_layer = None\<rparr>"
  let ?s2 = "\<lparr>label = None, points = Some [[5, 5]], shape_original_pdf_text_layer = None\<rparr>"
  have h: "list_all
             (\<lambda>ann. \<not> isl (get_page_number_from_image_id ?coco (ann_image_id ann)))
             [?a1, ?a2]"
    by code_simp
  have r1: "annotation_result ?doc
              (projr (get_page_number_from_image_id ?coco (ann_image_id ?a1))) ?a1 = []"
    by code_simp
  have r2: "annotation_result ?doc
              (projr (get_page_number_from_image_id ?coco (ann_image_id ?a2))) ?a2
            = ''Body text''"
    by code_simp
  have f1: "extract_text_from_bbox ?doc
              (projr (get_page_number_from_image_id ?coco (ann_image_id ?a1))) (bbox ?a1)
            = Inl TextQueryFailure"
    by code_simp
  have q1: "shape_result ?doc 0 1200 1600 ?s1 = []"
    by code_simp
  have q2: "shape_result ?doc 0 1200 1600 ?s2 = []"
    by code_simp
  have g1: "extract_text_from_labelme_bbox ?doc 0 [[100, 100], [300, 300]] 1200 1600
            = Inl TextQueryFailure"
    by code_simp
  note t = text_query_failure_absorbed [OF h, of ?doc 2 0 0 1200 1600 True "[?s1, ?s2]"]
  from t obtain k msgs
    where e: "annotations_loop ?doc ?coco 2 0 [?a1, ?a2] =
                Inr (map (\<lambda>ann. ann\<lparr>original_pdf_text_layer :=
                       Some (annotation_result ?doc
                               (projr (get_page_number_from_image_id ?coco (ann_image_id ann)))
                               ann)\<rparr>) [?a1, ?a2], k, msgs)"
      and w: "\<forall>ann \<in> set [?a1, ?a2]. \<forall>e.
                extract_text_from_bbox ?doc
                  (projr (get_page_number_from_image_id ?coco (ann_image_id ann)))
                  (bbox ann) = Inl e
                \<longrightarrow> annotation_result ?doc
                      (projr (get_page_number_from_image_id ?coco (ann_image_id ann)))
                      ann = []
                    \<and> Warn_extract_failed (ann_id ann) e \<in> set msgs"
    by blast
  from t obtain k' msgs'
    where e': "shapes_loop ?doc 0 1200 1600 True [?s1, ?s2] =
                 (map (\<lambda>shape. shape\<lparr>shape_original_pdf_text_layer :=
                         Some (shape_result ?doc 0 1200 1600 shape)\<rparr>) [?s1, ?s2], k', msgs')"
      and w': "\<forall>shape \<in> set [?s1, ?s2]. \<forall>pts e.
                 points shape = Some pts \<and> 2 \<le> length pts
                 \<and> extract_text_from_labelme_bbox ?doc 0 pts 1200 1600 = Inl e
                 \<longrightarrow> shape_result ?doc 0 1200 1600 shape = []
                     \<and> (True \<longrightarrow> L_warn_shape_failed e \<in> set msgs')"
    by blast
  have c1: "map original_pdf_text_layer
              (fst (projr (annotations_loop ?doc ?coco 2 0 [?a1, ?a2])))
            = [Some [], Some ''Body text'']"
    unfolding e using r1 r2 by simp
  have c2: "Warn_extract_failed 11 TextQueryFailure
              \<in> set (snd (snd (projr (annotations_loop ?doc ?coco 2 0 [?a1, ?a2]))))"
    unfolding e using w f1 by simp
  have c3: "map shape_original_pdf_text_layer
              (fst (shapes_loop ?doc 0 1200 1600 True [?s1, ?s2])) = [Some [], Some []]"
    unfolding e' using q1 q2 by simp
  have c4: "L_warn_shape_failed TextQueryFailure
              \<in> set (snd (snd (shapes_loop ?doc 0 1200 1600 True [?s1, ?s2])))"
    unfolding e' using w' g1 by simp
  from h c1 c2 c3 c4 show ?thesis
    by blast
qed

subsection \<open>The loop over the page files\<close>

lemma path_join_inj:
  assumes "CHR ''/'' \<notin> set a" and "CHR ''/'' \<notin> set b"
      and "path_join images_dir a = path_join images_dir b"
  shows "a = b"
proof -
  define pre where
    "pre = (if images_dir = [] \<or> endswith images_dir ''/'' then images_dir
            else images_dir @ ''/'')"
  have na: "take 1 a \<noteq> ''/''"
    using assms(1) by (cases a) auto
  have nb: "take 1 b \<noteq> ''/''"
    using assms(2) by (cases b) auto
  have ja: "path_join images_dir a = pre @ a"
    using na by (simp add: path_join_def pre_def)
  have jb: "path_join images_dir b = pre @ b"
    using nb by (simp add: path_join_def pre_def)
  from assms(3) show ?thesis
    unfolding ja jb by simp
qed

lemma distinct_map_snd_sort_key:
  "distinct (map snd (sort_key fst xs)) = distinct (map snd xs)"
  by (simp add: distinct_map)

lemma get_page_json_files_distinct:
  assumes "get_page_json_files images_dir (Some filenames) = Inr page_json_files"
      and "distinct filenames"
      and "list_all (\<lambda>filename. CHR ''/'' \<notin> set filename) filenames"
  shows "distinct (map snd page_json_files)"
proof -
  let ?keep = "filter (\<lambda>filename. endswith (lower filename) ''.json''
                                   \<and> match_page_json filename \<noteq> None) filenames"
  have "inj_on (path_join images_dir) (set ?keep)"
    using assms(3) by (auto simp: inj_on_def list_all_iff intro: path_join_inj)
  then have "distinct (map (path_join images_dir) ?keep)"
    using assms(2) by (simp add: distinct_map)
  then show ?thesis
    unfolding get_page_json_files_eq [OF assms(1)]
    by (simp add: distinct_map_snd_sort_key o_def)
qed

lemma content_after_pages_other:
  "p \<notin> snd ` set page_json_files \<Longrightarrow>
   content_after_pages pdf_doc page_json_files p content = content"
  by (induction pdf_doc page_json_files p content rule: content_after_pages.induct) auto

lemma content_after_pages_distinct:
  assumes "distinct (map snd page_json_files)" and "(n, p) \<in> set page_json_files"
  shows "content_after_pages pdf_doc page_json_files p content =
           (if n - 1 < page_count pdf_doc then augmented_content pdf_doc (n - 1) content
            else content)"
  using assms
proof (induction pdf_doc page_json_files p content rule: content_after_pages.induct)
  case (1 pdf_doc p content)
  then show ?case by simp
next
  case (2 pdf_doc page_num_1based json_path rest p content)
  show ?case
  proof (cases "(n, p) = (page_num_1based, json_path)")
    case True
    then have "p \<notin> snd ` set rest"
      using "2.prems"(1) by auto
    with True show ?thesis
      by (simp add: content_after_pages_other)
  next
    case False
    then have m: "(n, p) \<in> set rest" and d: "distinct (map snd rest)"
      using "2.prems" by auto
    then have "json_path \<noteq> p"
      using "2.prems"(1) by force
    then show ?thesis
      using "2.IH" [OF d m] by simp
  qed
qed

lemma labelme_pair_processed:
  assumes "folder_exists"
      and "get_page_json_files (path_join layout_folder ''images'') (Some filenames)
             = Inr page_json_files"
      and "page_json_files \<noteq> []"
  shows "labelme_process_pdf_layout_pair pdf_path layout_folder folder_exists (Some filenames)
           (Inr pdf_doc) files verbose =
         Inr (True, fst (pages_loop pdf_doc verbose page_json_files files),
              (if verbose then [L_processing_pdf (fst (splitext (basename pdf_path)))] else []) @
              (if verbose then [L_found_images_dir (path_join layout_folder ''images'')]
               else []) @
              (if verbose then [L_found_page_files (map fst page_json_files)] else []) @
              (if verbose then [L_opened_pdf (page_count pdf_doc)] else []) @
              (if int (length page_json_files) \<noteq> page_count pdf_doc \<and> verbose
               then [L_warn_page_count_mismatch (page_count pdf_doc) (length page_json_files)]
               else []) @
              snd (snd (pages_loop pdf_doc verbose page_json_files files)) @
              (if verbose
               then [L_success (fst (snd (pages_loop pdf_doc verbose page_json_files files)))
                       (length page_json_files)]
               else []))"
  using assms by (simp add: labelme_process_pdf_layout_pair_def Let_def split_beta)

lemma labelme_pair_no_page_files:
  assumes "folder_exists"
      and "get_page_json_files (path_join layout_folder ''images'') (Some filenames) = Inr []"
  shows "labelme_process_pdf_layout_pair pdf_path layout_folder folder_exists (Some filenames)
           opened files verbose =
         Inr (False, files,
              (if verbose then [L_processing_pdf (fst (splitext (basename pdf_path)))] else []) @
              (if verbose then [L_found_images_dir (path_join layout_folder ''images'')]
               else []) @
              (if verbose then [L_warn_no_page_files (path_join layout_folder ''images'')]
               else []))"
  using assms by (simp add: labelme_process_pdf_layout_pair_def Let_def)

text \<open>
  Claim C8 (as amended). When the number of page files differs from the page count of the
  document and there is at least one page file, the pair is still processed and returns
  \<open>True\<close>; the mismatch warning is printed when \<open>verbose\<close> is set, and nothing is printed
  otherwise. Every page file whose zero-based index \<open>N - 1\<close> lies in \<open>[0, pageCount)\<close> is
  processed: its path holds what \<^verbatim>\<open>process_labelme_json\<close> leaves there for page \<open>N - 1\<close>.
  Every page file with \<open>N - 1 \<ge> pageCount\<close> is skipped: its path is untouched. When there is
  no page file at all, the pair is given up before the document is opened: it returns
  \<open>False\<close>, the files are untouched, and the warning printed (when \<open>verbose\<close> is set) is
  that no page file was found, not the mismatch. The names of a directory listing are
  distinct and contain no separator.
\<close>

theorem page_count_mismatch_processed:
  assumes "folder_exists"
      and "distinct filenames"
      and "list_all (\<lambda>filename. CHR ''/'' \<notin> set filename) filenames"
      and "get_page_json_files (path_join layout_folder ''images'') (Some filenames)
             = Inr page_json_files"
      and "int (length page_json_files) \<noteq> page_count pdf_doc"
  shows "(page_json_files \<noteq> [] \<longrightarrow>
          (\<exists>files' msgs.
             labelme_process_pdf_layout_pair pdf_path layout_folder folder_exists
               (Some filenames) (Inr pdf_doc) files verbose = Inr (True, files', msgs)
             \<and> (verbose \<longrightarrow>
                  L_warn_page_count_mismatch (page_count pdf_doc) (length page_json_files)
                    \<in> set msgs)
             \<and> (\<not> verbose \<longrightarrow> msgs = [])
             \<and> (\<forall>(n, json_path) \<in> set page_json_files.
                   (0 \<le> n - 1 \<and> n - 1 < page_count pdf_doc \<longrightarrow>
                      files' json_path =
                        fst (snd (process_labelme_json files json_path pdf_doc (n - 1) verbose))
                          json_path)
                   \<and> (page_count pdf_doc \<le> n - 1 \<longrightarrow> files' json_path = files json_path))))
         \<and> (page_json_files = [] \<longrightarrow>
          (\<exists>msgs.
             labelme_process_pdf_layout_pair pdf_path layout_folder folder_exists
               (Some filenames) opened files verbose = Inr (False, files, msgs)
             \<and> L_warn_page_count_mismatch (page_count pdf_doc) (length page_json_files)
                 \<notin> set msgs
             \<and> (verbose \<longrightarrow>
                  L_warn_no_page_files (path_join layout_folder ''images'') \<in> set msgs)
             \<and> (\<not> verbose \<longrightarrow> msgs = [])))"
proof (intro conjI impI)
  assume ne: "page_json_files \<noteq> []"
  let ?files' = "fst (pages_loop pdf_doc verbose page_json_files files)"
  have d: "distinct (map snd page_json_files)"
    using get_page_json_files_distinct [OF assms(4) assms(2) assms(3)] .
  have each: "?files' json_path =
                (if n - 1 < page_count pdf_doc
                 then fst (snd (process_labelme_json files json_path pdf_doc (n - 1) verbose))
                        json_path
                 else files json_path)"
    if "(n, json_path) \<in> set page_json_files" for n json_path
    using content_after_pages_distinct [OF d that, of pdf_doc "files json_path"]
    by (simp add: pages_loop_files process_labelme_json_files)
  have "\<forall>(n, json_path) \<in> set page_json_files.
          (0 \<le> n - 1 \<and> n - 1 < page_count pdf_doc \<longrightarrow>
             ?files' json_path =
               fst (snd (process_labelme_json files json_path pdf_doc (n - 1) verbose))
                 json_path)
          \<and> (page_count pdf_doc \<le> n - 1 \<longrightarrow> ?files' json_path = files json_path)"
    using each by auto
  then show "\<exists>files' msgs.
             labelme_process_pdf_layout_pair pdf_path layout_folder folder_exists
               (Some filenames) (Inr pdf_doc) files verbose = Inr (True, files', msgs)
             \<and> (verbose \<longrightarrow>
                  L_warn_page_count_mismatch (page_count pdf_doc) (length page_json_files)
                    \<in> set msgs)
             \<and> (\<not> verbose \<longrightarrow> msgs = [])
             \<and> (\<forall>(n, json_path) \<in> set page_json_files.
                   (0 \<le> n - 1 \<and> n - 1 < page_count pdf_doc \<longrightarrow>
                      files' json_path =
                        fst (snd (process_labelme_json files json_path pdf_doc (n - 1) verbose))
                          json_path)
                   \<and> (page_count pdf_doc \<le> n - 1 \<longrightarrow> files' json_path = files json_path))"
    using assms(5)
    by (simp add: labelme_pair_processed [OF assms(1) assms(4) ne] pages_loop_quiet)
next
  assume e: "page_json_files = []"
  show "\<exists>msgs.
             labelme_process_pdf_layout_pair pdf_path layout_folder folder_exists
               (Some filenames) opened files verbose = Inr (False, files, msgs)
             \<and> L_warn_page_count_mismatch (page_count pdf_doc) (length page_json_files)
                 \<notin> set msgs
             \<and> (verbose \<longrightarrow>
                  L_warn_no_page_files (path_join layout_folder ''images'') \<in> set msgs)
             \<and> (\<not> verbose \<longrightarrow> msgs = [])"
    by (simp add: labelme_pair_no_page_files [OF assms(1) assms(4) [unfolded e]])
qed

text \<open>
  The claim as stated fails on the warning, and with it on the processing. In quiet mode a
  pair with one page file and a document of two pages is processed and returns \<open>True\<close>, and
  nothing is printed. A pair without any page file and the same document (zero mappings
  against two pages) is not processed: it returns \<open>False\<close>, and the messages hold no mismatch
  warning, also when \<open>verbose\<close> is set.
\<close>

theorem quiet_mismatch_counterexample:
  "get_page_json_files (path_join ''out/doc'' ''images'') (Some [''page_1.json''])
     = Inr [(1, ''out/doc/images/page_1.json'')]
   \<and> page_count (fitz_document [constant_page 600 800 ''Title'', constant_page 600 800 []]) = 2
   \<and> map_sum id (\<lambda>(ok, files', msgs). (ok, msgs))
       (labelme_process_pdf_layout_pair ''pdfs/doc.pdf'' ''out/doc'' True (Some [''page_1.json''])
          (Inr (fitz_document [constant_page 600 800 ''Title'', constant_page 600 800 []]))
          [''out/doc/images/page_1.json'' \<mapsto>
             Json \<lparr>shapes = Some [\<lparr>label = Some ''title'',
                                    points = Some [[100, 100], [300, 300]],
                                    shape_original_pdf_text_layer = None\<rparr>],
                   imageWidth = Some 1200, imageHeight = Some 1600\<rparr>]
          False)
     = Inr (True, [])
   \<and> get_page_json_files (path_join ''out/doc'' ''images'') (Some [''notes.json'']) = Inr []
   \<and> map_sum id (\<lambda>(ok, files', msgs). (ok, msgs))
       (labelme_process_pdf_layout_pair ''pdfs/doc.pdf'' ''out/doc'' True (Some [''notes.json''])
          (Inr (fitz_document [constant_page 600 800 ''Title'', constant_page 600 800 []]))
          Map.empty True)
     = Inr (False,
            [L_processing_pdf ''doc'', L_found_images_dir ''out/doc/images'',
             L_warn_no_page_files ''out/doc/images''])"
  by code_simp

theorem page_count_mismatch_processed_witness:
  "(\<exists>files' msgs.
     labelme_process_pdf_layout_pair ''pdfs/doc.pdf'' ''out/doc'' True
       (Some [''page_5.json'', ''page_1.json'', ''readme.txt''])
       (Inr (fitz_document [constant_page 600 800 '' Title '', constant_page 600 800 [],
                            constant_page 600 800 []]))
       [''out/doc/images/page_1.json'' \<mapsto>
          Json \<lparr>shapes = Some [\<lparr>label = Some ''title'',
                                 points = Some [[100, 100], [300, 300]],
                                 shape_original_pdf_text_layer = None\<rparr>],
                imageWidth = Some 1200, imageHeight = Some 1600\<rparr>,
        ''out/doc/images/page_5.json'' \<mapsto>
          Json \<lparr>shapes = Some [\<lparr>label = Some ''note'',
                                 points = Some [[10, 10], [20, 20]],
                                 shape_original_pdf_text_layer = None\<rparr>],
                imageWidth = Some 1200, imageHeight = Some 1600\<rparr>]
       True = Inr (True, files', msgs)
     \<and> L_warn_page_count_mismatch 3 2 \<in> set msgs
     \<and> files' ''out/doc/images/page_1.json'' =
         Some (Json \<lparr>shapes = Some [\<lparr>label = Some ''title'',
                                        points = Some [[100, 100], [300, 300]],
                                        shape_original_pdf_text_layer = Some ''Title''\<rparr>],
                       imageWidth = Some 1200, imageHeight = Some 1600\<rparr>)
     \<and> files' ''out/doc/images/page_5.json'' =
         Some (Json \<lparr>shapes = Some [\<lparr>label = Some ''note'',
                                        points = Some [[10, 10], [20, 20]],
                                        shape_original_pdf_text_layer = None\<rparr>],
                       imageWidth = Some 1200, imageHeight = Some 1600\<rparr>))
   \<and> (\<exists>msgs.
     labelme_process_pdf_layout_pair ''pdfs/doc.pdf'' ''out/doc'' True
       (Some [''notes.json'', ''readme.txt''])
       (Inr (fitz_document [constant_page 600 800 '' Title '', constant_page 600 800 [],
                            constant_page 600 800 []]))
       Map.empty True = Inr (False, Map.empty, msgs)
     \<and> L_warn_page_count_mismatch 3 0 \<notin> set msgs
     \<and> L_warn_no_page_files ''out/doc/images'' \<in> set msgs)"
proof -
  let ?names = "[''page_5.json'', ''page_1.json'', ''readme.txt'']"
  let ?doc = "fitz_document [constant_page 600 800 '' Title '', constant_page 600 800 [],
                             constant_page 600 800 []]"
  let ?d1 = "\<lparr>shapes = Some [\<lparr>label = Some ''title'',
                                 points = Some [[100, 100], [300, 300]],
                                 shape_original_pdf_text_layer = None\<rparr>],
                imageWidth = Some 1200, imageHeight = Some 1600\<rparr>"
  let ?d5 = "\<lparr>shapes = Some [\<lparr>label = Some ''note'',
                                 points = Some [[10, 10], [20, 20]],
                                 shape_original_pdf_text_layer = None\<rparr>],
                imageWidth = Some 1200, imageHeight = Some 1600\<rparr>"
  let ?files = "[''out/doc/images/page_1.json'' \<mapsto> Json ?d1,
                 ''out/doc/images/page_5.json'' \<mapsto> Json ?d5]"
  let ?pages = "[(1::int, ''out/doc/images/page_1.json''),
                 (5::int, ''out/doc/images/page_5.json'')]"
  have h2: "distinct ?names"
    by code_simp
  have h3: "list_all (\<lambda>filename. CHR ''/'' \<notin> set filename) ?names"
    by code_simp
  have h4: "get_page_json_files (path_join ''out/doc'' ''images'') (Some ?names) = Inr ?pages"
    by code_simp
  have h5: "?pages \<noteq> []"
    by simp
  have c: "page_count ?doc = 3"
    by (simp add: fitz_document_def)
  have h6: "int (length ?pages) \<noteq> page_count ?doc"
    using c by simp
  have p1: "fst (snd (process_labelme_json ?files ''out/doc/images/page_1.json'' ?doc 0 True))
              ''out/doc/images/page_1.json''
            = Some (Json \<lparr>shapes = Some [\<lparr>label = Some ''title'',
                                        points = Some [[100, 100], [300, 300]],
                                        shape_original_pdf_text_layer = Some ''Title''\<rparr>],
                       imageWidth = Some 1200, imageHeight = Some 1600\<rparr>)"
    by code_simp
  have p5: "?files ''out/doc/images/page_5.json'' = Some (Json ?d5)"
    by simp
  note t = page_count_mismatch_processed
             [OF TrueI h2 h3 h4 h6,
              where pdf_path = "''pdfs/doc.pdf''" and files = ?files and verbose = True,
              THEN conjunct1, THEN mp, OF h5]
  then obtain files' msgs
    where r: "labelme_process_pdf_layout_pair ''pdfs/doc.pdf'' ''out/doc'' True (Some ?names)
                (Inr ?doc) ?files True = Inr (True, files', msgs)"
      and w: "True \<longrightarrow>
                L_warn_page_count_mismatch (page_count ?doc) (length ?pages) \<in> set msgs"
      and a: "\<forall>(n, json_path) \<in> set ?pages.
                (0 \<le> n - 1 \<and> n - 1 < page_count ?doc \<longrightarrow>
                   files' json_path =
                     fst (snd (process_labelme_json ?files json_path ?doc (n - 1) True))
                       json_path)
                \<and> (page_count ?doc \<le> n - 1 \<longrightarrow> files' json_path = ?files json_path)"
    by blast
  have f1: "files' ''out/doc/images/page_1.json'' =
              fst (snd (process_labelme_json ?files ''out/doc/images/page_1.json'' ?doc 0 True))
                ''out/doc/images/page_1.json''"
    using a c by simp
  have f5: "files' ''out/doc/images/page_5.json'' = ?files ''out/doc/images/page_5.json''"
    using a c by simp
  have w': "L_warn_page_count_mismatch 3 2 \<in> set msgs"
    using w c by (simp add: numeral_2_eq_2)
  have first: "\<exists>files' msgs.
     labelme_process_pdf_layout_pair ''pdfs/doc.pdf'' ''out/doc'' True (Some ?names)
       (Inr ?doc) ?files True = Inr (True, files', msgs)
     \<and> L_warn_page_count_mismatch 3 2 \<in> set msgs
     \<and> files' ''out/doc/images/page_1.json'' =
         Some (Json \<lparr>shapes = Some [\<lparr>label = Some ''title'',
                                        points = Some [[100, 100], [300, 300]],
                                        shape_original_pdf_text_layer = Some ''Title''\<rparr>],
                       imageWidth = Some 1200, imageHeight = Some 1600\<rparr>)
     \<and> files' ''out/doc/images/page_5.json'' = Some (Json ?d5)"
    using r w' f1 f5 p1 p5 by (intro exI [of _ files'] exI [of _ msgs]) simp
  let ?others = "[''notes.json'', ''readme.txt'']"
  have o2: "distinct ?others"
    by code_simp
  have o3: "list_all (\<lambda>filename. CHR ''/'' \<notin> set filename) ?others"
    by code_simp
  have o4: "get_page_json_files (path_join ''out/doc'' ''images'') (Some ?others)
              = Inr ([] :: (int \<times> string) list)"
    by code_simp
  have o6: "int (length ([] :: (int \<times> string) list)) \<noteq> page_count ?doc"
    using c by simp
  have dir: "path_join ''out/doc'' ''images'' = ''out/doc/images''"
    by code_simp
  note u = page_count_mismatch_processed
             [OF TrueI o2 o3 o4 o6,
              where pdf_path = "''pdfs/doc.pdf''" and files = Map.empty and verbose = True
                and opened = "Inr ?doc",
              THEN conjunct2, THEN mp, OF refl]
  then obtain msgs2
    where r2: "labelme_process_pdf_layout_pair ''pdfs/doc.pdf'' ''out/doc'' True (Some ?others)
                 (Inr ?doc) Map.empty True = Inr (False, Map.empty, msgs2)"
      and n2: "L_warn_page_count_mismatch (page_count ?doc)
                 (length ([] :: (int \<times> string) list)) \<notin> set msgs2"
      and w2: "True \<longrightarrow>
                 L_warn_no_page_files (path_join ''out/doc'' ''images'') \<in> set msgs2"
    by blast
  have second: "\<exists>msgs.
     labelme_process_pdf_layout_pair ''pdfs/doc.pdf'' ''out/doc'' True (Some ?others)
       (Inr ?doc) Map.empty True = Inr (False, Map.empty, msgs)
     \<and> L_warn_page_count_mismatch 3 0 \<notin> set msgs
     \<and> L_warn_no_page_files ''out/doc/images'' \<in> set msgs"
    using r2 n2 w2 c dir by (intro exI [of _ msgs2]) simp
  from first second show ?thesis
    by (rule conjI)
qed

text \<open>
  The loop tests the index against the page count from above only, as the extractors do:
  a file \<^verbatim>\<open>page_0.json\<close> has index \<open>-1\<close>, is not skipped, and its shapes receive text of the last
  page of the document.
\<close>

lemma page_zero_file_not_skipped:
  "fst (pages_loop
          (fitz_document [constant_page 600 800 ''First'', constant_page 600 800 ''Last''])
          False [(0, ''out/doc/images/page_0.json'')]
          [''out/doc/images/page_0.json'' \<mapsto>
             Json \<lparr>shapes = Some [\<lparr>label = Some ''title'',
                                    points = Some [[100, 100], [300, 300]],
                                    shape_original_pdf_text_layer = None\<rparr>],
                   imageWidth = Some 1200, imageHeight = Some 1600\<rparr>])
     ''out/doc/images/page_0.json''
   = Some (Json \<lparr>shapes = Some [\<lparr>label = Some ''title'',
                                    points = Some [[100, 100], [300, 300]],
                                    shape_original_pdf_text_layer = Some ''Last''\<rparr>],
                   imageWidth = Some 1200, imageHeight = Some 1600\<rparr>)"
  by code_simp

subsection \<open>Running the pipeline again\<close>

lemma resolver_depends_on_images:
  "images coco_data' = images coco_data \<Longrightarrow>
   get_page_number_from_image_id coco_data' image_id =
   get_page_number_from_image_id coco_data image_id"
  by (simp add: get_page_number_from_image_id_def)

lemma process_annotation_raises:
  "isl (process_annotation pdf_doc coco_data n i ann) =
   isl (get_page_number_from_image_id coco_data (ann_image_id ann))"
  by (simp add: process_annotation_def Let_def split: sum.splits)

lemma annotations_loop_returns:
  "annotations_loop pdf_doc coco_data n i anns = Inr r \<Longrightarrow>
   list_all (\<lambda>ann. \<not> isl (get_page_number_from_image_id coco_data (ann_image_id ann))) anns"
proof (induction anns arbitrary: i r)
  case Nil
  show ?case by simp
next
  case (Cons ann rest)
  from Cons.prems obtain a where a: "process_annotation pdf_doc coco_data n i ann = Inr a"
    by (cases "process_annotation pdf_doc coco_data n i ann") simp_all
  from Cons.prems a obtain r' where "annotations_loop pdf_doc coco_data n (Suc i) rest = Inr r'"
    by (cases "annotations_loop pdf_doc coco_data n (Suc i) rest")
       (simp_all add: split_beta)
  from Cons.IH [OF this] show ?case
    using process_annotation_raises [of pdf_doc coco_data n i ann] a by simp
qed

lemma annotation_result_text_irrelevant:
  "annotation_result pdf_doc page_num (ann\<lparr>original_pdf_text_layer := t\<rparr>) =
   annotation_result pdf_doc page_num ann"
  by (simp add: annotation_result_def)

lemma annotations_loop_attached:
  assumes "list_all (\<lambda>ann. \<not> isl (get_page_number_from_image_id coco_data (ann_image_id ann)))
             anns"
  shows "\<exists>k msgs. annotations_loop pdf_doc coco_data n i anns =
           Inr (map (\<lambda>ann. ann\<lparr>original_pdf_text_layer :=
                      Some (annotation_result pdf_doc
                              (projr (get_page_number_from_image_id coco_data (ann_image_id ann)))
                              ann)\<rparr>) anns,
                k, msgs)"
  using annotations_loop_resolved [OF assms, of pdf_doc n i] by (elim exE conjE) (intro exI)

lemma process_annotations_again:
  assumes "process_annotations pdf_doc coco_data = Inr (coco_data', k, msgs)"
  shows "\<exists>k' msgs'. process_annotations pdf_doc coco_data' = Inr (coco_data', k', msgs')"
proof (cases "annotations coco_data")
  case None
  with assms have "coco_data' = coco_data"
    by (simp add: process_annotations_def)
  with None show ?thesis
    by (simp add: process_annotations_def)
next
  case (Some anns)
  define attach where
    "attach = (\<lambda>c ann. ann\<lparr>original_pdf_text_layer :=
                   Some (annotation_result pdf_doc
                           (projr (get_page_number_from_image_id c (ann_image_id ann))) ann)\<rparr>)"
  have attach_image_id: "ann_image_id (attach c ann) = ann_image_id ann" for c ann
    by (simp add: attach_def)
  from assms Some obtain r
    where l: "annotations_loop pdf_doc coco_data (length anns) 0 anns = Inr r"
    by (cases "annotations_loop pdf_doc coco_data (length anns) 0 anns")
       (simp_all add: process_annotations_def)
  have res: "list_all
               (\<lambda>ann. \<not> isl (get_page_number_from_image_id coco_data (ann_image_id ann))) anns"
    using annotations_loop_returns [OF l] .
  from annotations_loop_attached [OF res, of pdf_doc "length anns" 0] obtain k1 msgs1
    where l1: "annotations_loop pdf_doc coco_data (length anns) 0 anns =
                 Inr (map (attach coco_data) anns, k1, msgs1)"
    unfolding attach_def by (elim exE)
  have c': "coco_data' = coco_data\<lparr>annotations := Some (map (attach coco_data) anns)\<rparr>"
    using assms Some l1 by (simp add: process_annotations_def)
  have im: "images coco_data' = images coco_data"
    unfolding c' by simp
  have same: "get_page_number_from_image_id coco_data' image_id =
              get_page_number_from_image_id coco_data image_id" for image_id
    using im by (rule resolver_depends_on_images)
  have res': "list_all
                (\<lambda>ann. \<not> isl (get_page_number_from_image_id coco_data' (ann_image_id ann)))
                (map (attach coco_data) anns)"
    using res by (simp add: same list_all_iff attach_image_id)
  from annotations_loop_attached
         [OF res', of pdf_doc "length anns" 0]
  obtain k2 msgs2
    where l2: "annotations_loop pdf_doc coco_data' (length anns) 0
                 (map (attach coco_data) anns) =
                 Inr (map (attach coco_data') (map (attach coco_data) anns), k2, msgs2)"
    unfolding attach_def by (elim exE)
  have "attach coco_data' (attach coco_data ann) = attach coco_data ann" for ann
    by (simp add: attach_def same annotation_result_text_irrelevant)
  then have idem: "map (attach coco_data') (map (attach coco_data) anns)
                = map (attach coco_data) anns"
    by simp
  have a': "annotations coco_data' = Some (map (attach coco_data) anns)"
    unfolding c' by simp
  have u: "coco_data'\<lparr>annotations := Some (map (attach coco_data) anns)\<rparr> = coco_data'"
    unfolding c' by simp
  have "process_annotations pdf_doc coco_data' =
          Inr (coco_data'\<lparr>annotations :=
                 Some (map (attach coco_data') (map (attach coco_data) anns))\<rparr>,
               k2, Msg_processing_annotations (length anns) # msgs2)"
    by (simp add: process_annotations_def a' l2 del: map_map)
  then show ?thesis
    unfolding idem u by (intro exI)
qed

lemma coco_pair_again:
  assumes "coco_process_pdf_layout_pair pdf_path layout_folder folder_exists coco_json_path
             (Inr coco_data) opened save_error = Inr (ok, Some coco_data', msgs)"
  shows "\<exists>msgs'. coco_process_pdf_layout_pair pdf_path layout_folder folder_exists
             coco_json_path (Inr coco_data') opened save_error = Inr (ok, Some coco_data', msgs')"
proof -
  from assms have fe: "folder_exists"
    by (auto simp: coco_process_pdf_layout_pair_def Let_def split: if_splits)
  from assms fe obtain path where p: "coco_json_path = Some path"
    by (cases coco_json_path) (simp_all add: coco_process_pdf_layout_pair_def Let_def)
  from assms fe p obtain pdf_doc where d: "opened = Inr pdf_doc"
    by (cases opened) (simp_all add: coco_process_pdf_layout_pair_def Let_def)
  from assms fe p d obtain r where "process_annotations pdf_doc coco_data = Inr r"
    by (cases "process_annotations pdf_doc coco_data")
       (simp_all add: coco_process_pdf_layout_pair_def Let_def)
  then obtain c k m where r: "process_annotations pdf_doc coco_data = Inr (c, k, m)"
    by (cases r) simp
  from assms fe p d r have s: "save_error = None" and ok: "ok" and c: "c = coco_data'"
    by (cases save_error; simp add: coco_process_pdf_layout_pair_def Let_def)+
  from process_annotations_again [OF r [unfolded c]] obtain k' msgs'
    where "process_annotations pdf_doc coco_data' = Inr (coco_data', k', msgs')"
    by (elim exE)
  with fe p d s ok show ?thesis
    by (simp add: coco_process_pdf_layout_pair_def Let_def)
qed

lemma labelme_pair_again:
  assumes "labelme_process_pdf_layout_pair pdf_path layout_folder folder_exists listing opened
             files verbose = Inr (ok, files', msgs)"
  shows "\<exists>msgs'. labelme_process_pdf_layout_pair pdf_path layout_folder folder_exists listing
             opened files' verbose = Inr (ok, files', msgs')"
proof (cases "folder_exists \<and> listing \<noteq> None")
  case False
  with assms have "files' = files"
    by (auto simp: labelme_process_pdf_layout_pair_def Let_def split: if_splits)
  with assms False show ?thesis
    by (auto simp: labelme_process_pdf_layout_pair_def Let_def split: if_splits)
next
  case True
  then obtain filenames where fe: "folder_exists" and l: "listing = Some filenames"
    by auto
  from assms fe l obtain page_json_files
    where g: "get_page_json_files (path_join layout_folder ''images'') (Some filenames)
                = Inr page_json_files"
    by (cases "get_page_json_files (path_join layout_folder ''images'') (Some filenames)")
       (simp_all add: labelme_process_pdf_layout_pair_def Let_def)
  show ?thesis
  proof (cases "page_json_files = []")
    case True
    with assms fe l g have "files' = files \<and> \<not> ok"
      by (simp add: labelme_process_pdf_layout_pair_def Let_def)
    with True fe l g show ?thesis
      by (simp add: labelme_process_pdf_layout_pair_def Let_def)
  next
    case False
    show ?thesis
    proof (cases opened)
      case (Inl e)
      with assms fe l g False have "files' = files \<and> \<not> ok"
        by (simp add: labelme_process_pdf_layout_pair_def Let_def)
      with Inl False fe l g show ?thesis
        by (simp add: labelme_process_pdf_layout_pair_def Let_def)
    next
      case (Inr pdf_doc)
      have "files' = fst (pages_loop pdf_doc verbose page_json_files files) \<and> ok"
        using assms
        unfolding l Inr labelme_pair_processed [OF fe g False]
        by simp
      then show ?thesis
        unfolding l Inr labelme_pair_processed [OF fe g False]
        by (simp add: pages_loop_idem)
    qed
  qed
qed

text \<open>
  Claim C9. A second run of the pipeline on the group the first run wrote back (same
  document, same file-system answers) writes back the same group: each region carries
  \<^verbatim>\<open>original_pdf_text_layer\<close> once, with the same value, and nothing else in the group has
  changed. For Dialect A the group is the COCO structure, for Dialect B the files of the
  images directory.
\<close>

theorem second_run_same_group:
  "(coco_process_pdf_layout_pair pdf_path layout_folder folder_exists coco_json_path
       (Inr coco_data) opened save_error = Inr (ok, Some coco_data', msgs)
     \<longrightarrow> (\<exists>msgs'. coco_process_pdf_layout_pair pdf_path layout_folder folder_exists
             coco_json_path (Inr coco_data') opened save_error
           = Inr (ok, Some coco_data', msgs')))
   \<and> (labelme_process_pdf_layout_pair pdf_path layout_folder folder_exists listing opened
         files verbose = Inr (ok', files', lmsgs)
     \<longrightarrow> (\<exists>lmsgs'. labelme_process_pdf_layout_pair pdf_path layout_folder folder_exists
             listing opened files' verbose = Inr (ok', files', lmsgs')))"
  by (intro conjI impI) (erule coco_pair_again, erule labelme_pair_again)

theorem second_run_same_group_witness:
  "coco_process_pdf_layout_pair ''pdfs/doc.pdf'' ''out/doc'' True (Some ''out/doc/coco.json'')
       (Inr sample_coco_group) (Inr sample_document) None
     = Inr (True,
            Some (sample_coco_group
                    \<lparr>annotations :=
                       Some [\<lparr>ann_id = 11, ann_image_id = 1, bbox = [10, 20, 30, 40],
                              original_pdf_text_layer = Some ''Title''\<rparr>,
                             \<lparr>ann_id = 12, ann_image_id = 2, bbox = [0, 0, 600, 800],
                              original_pdf_text_layer = Some ''Body text''\<rparr>]\<rparr>),
            [Msg_processing_pdf ''doc'', Msg_found_coco_json ''out/doc/coco.json'',
             Msg_opened_pdf 2, Msg_processing_annotations 2,
             Msg_success 2 ''out/doc/coco.json''])
   \<and> (\<exists>msgs'.
        coco_process_pdf_layout_pair ''pdfs/doc.pdf'' ''out/doc'' True (Some ''out/doc/coco.json'')
          (Inr (sample_coco_group
                  \<lparr>annotations :=
                     Some [\<lparr>ann_id = 11, ann_image_id = 1, bbox = [10, 20, 30, 40],
                            original_pdf_text_layer = Some ''Title''\<rparr>,
                           \<lparr>ann_id = 12, ann_image_id = 2, bbox = [0, 0, 600, 800],
                            original_pdf_text_layer = Some ''Body text''\<rparr>]\<rparr>))
          (Inr sample_document) None
        = Inr (True,
               Some (sample_coco_group
                       \<lparr>annotations :=
                          Some [\<lparr>ann_id = 11, ann_image_id = 1, bbox = [10, 20, 30, 40],
                                 original_pdf_text_layer = Some ''Title''\<rparr>,
                                \<lparr>ann_id = 12, ann_image_id = 2, bbox = [0, 0, 600, 800],
                                 original_pdf_text_layer = Some ''Body text''\<rparr>]\<rparr>),
               msgs'))
   \<and> (\<exists>files' msgs msgs'.
        labelme_process_pdf_layout_pair ''pdfs/doc.pdf'' ''out/doc'' True
          (Some [''page_2.json'', ''page_1.json'']) (Inr sample_document)
          sample_labelme_files True = Inr (True, files', msgs)
        \<and> files' ''out/doc/images/page_1.json'' =
            Some (Json \<lparr>shapes = Some [\<lparr>label = Some ''title'',
                                           points = Some [[100, 100], [300, 300]],
                                           shape_original_pdf_text_layer = Some ''Title''\<rparr>],
                          imageWidth = Some 1200, imageHeight = Some 1600\<rparr>)
        \<and> labelme_process_pdf_layout_pair ''pdfs/doc.pdf'' ''out/doc'' True
            (Some [''page_2.json'', ''page_1.json'']) (Inr sample_document)
            files' True = Inr (True, files', msgs'))"
proof -
  let ?coco1 = "sample_coco_group
                  \<lparr>annotations :=
                     Some [\<lparr>ann_id = 11, ann_image_id = 1, bbox = [10, 20, 30, 40],
                            original_pdf_text_layer = Some ''Title''\<rparr>,
                           \<lparr>ann_id = 12, ann_image_id = 2, bbox = [0, 0, 600, 800],
                            original_pdf_text_layer = Some ''Body text''\<rparr>]\<rparr>"
  let ?run = "labelme_process_pdf_layout_pair ''pdfs/doc.pdf'' ''out/doc'' True
                (Some [''page_2.json'', ''page_1.json'']) (Inr sample_document)"
  let ?r = "?run sample_labelme_files True"
  have a: "coco_process_pdf_layout_pair ''pdfs/doc.pdf'' ''out/doc'' True
             (Some ''out/doc/coco.json'') (Inr sample_coco_group) (Inr sample_document) None
           = Inr (True, Some ?coco1,
                  [Msg_processing_pdf ''doc'', Msg_found_coco_json ''out/doc/coco.json'',
                   Msg_opened_pdf 2, Msg_processing_annotations 2,
                   Msg_success 2 ''out/doc/coco.json''])"
    by code_simp
  have ok: "\<not> isl ?r" "fst (projr ?r)"
    by code_simp+
  have f1: "fst (snd (projr ?r)) ''out/doc/images/page_1.json'' =
            Some (Json \<lparr>shapes = Some [\<lparr>label = Some ''title'',
                                           points = Some [[100, 100], [300, 300]],
                                           shape_original_pdf_text_layer = Some ''Title''\<rparr>],
                          imageWidth = Some 1200, imageHeight = Some 1600\<rparr>)"
    by code_simp
  have b: "?r = Inr (True, fst (snd (projr ?r)), snd (snd (projr ?r)))"
    using ok by (cases ?r) auto
  have a2: "\<exists>msgs'.
        coco_process_pdf_layout_pair ''pdfs/doc.pdf'' ''out/doc'' True (Some ''out/doc/coco.json'')
          (Inr ?coco1) (Inr sample_document) None = Inr (True, Some ?coco1, msgs')"
    by (rule second_run_same_group [THEN conjunct1, THEN mp, OF a])
  from second_run_same_group [THEN conjunct2, THEN mp, OF b] obtain msgs'
    where b2: "?run (fst (snd (projr ?r))) True = Inr (True, fst (snd (projr ?r)), msgs')"
    by (elim exE)
  from a a2 b b2 f1 show ?thesis
    by (intro conjI exI [of _ "fst (snd (projr ?r))"] exI [of _ "snd (snd (projr ?r))"]
          exI [of _ msgs'])
qed

end
